theory Spec2Isabelle
  imports Complex_Main
begin

section \<open>Python floats: IEEE 754 binary64 values and correctly rounded arithmetic\<close>

text \<open>
  The three scripts compute with Python \<open>float\<close>s only. A float is modelled by its value: a
  rational number for a finite float, or one of the two infinities, or NaN. The two zeros
  \<open>0.0\<close> and \<open>-0.0\<close> are identified: Python's comparisons do not tell them apart, and
  division by either raises \<open>ZeroDivisionError\<close>. Each arithmetic operation computes the
  exact rational result and rounds it to the nearest binary64 value, ties to even, with
  gradual underflow and overflow to infinity.
\<close>

datatype pyfloat = Fin rat | PInf | NInf | NaN

datatype error = ValueError | ZeroDivisionError

function bitlen :: "int \<Rightarrow> int" where
  "bitlen n = (if n \<le> 0 then 0 else 1 + bitlen (n div 2))"
  by pat_completeness auto
termination
  by (relation "measure nat") auto

declare bitlen.simps [simp del]

definition pow2 :: "int \<Rightarrow> rat" where
  "pow2 e = (if 0 \<le> e then 2 ^ nat e else 1 / 2 ^ nat (- e))"

text \<open>
  \<open>ilog2 x\<close> is the integer \<open>d\<close> with \<open>2^d \<le> x < 2^(d+1)\<close>, for positive \<open>x\<close>: the
  bit length of the integer part when \<open>x \<ge> 1\<close>, and otherwise read off the integer part
  of \<open>1 / x\<close>, taking care of the exact powers of two.
\<close>

definition ilog2_fix :: "rat \<Rightarrow> int \<Rightarrow> int" where
  "ilog2_fix x d = (if pow2 (d + 1) \<le> x then d + 1 else d)"

definition ilog2 :: "rat \<Rightarrow> int" where
  "ilog2 x = (if 1 \<le> x then bitlen \<lfloor>x\<rfloor> - 1 else ilog2_fix x (- bitlen \<lfloor>1 / x\<rfloor>))"

text \<open>Rounding a non-negative rational to the nearest integer, ties to the even one.\<close>

definition round_from_floor :: "rat \<Rightarrow> int \<Rightarrow> int" where
  "round_from_floor x f =
     (if x - of_int f < 1 / 2 then f
      else if 1 / 2 < x - of_int f then f + 1
      else if even f then f else f + 1)"

definition round_half_even :: "rat \<Rightarrow> int" where
  "round_half_even x = round_from_floor x \<lfloor>x\<rfloor>"

text \<open>
  Rounding to binary64. The significand has 53 bits, so the unit in the last place of a
  positive \<open>a\<close> is \<open>2^e\<close> with \<open>e = ilog2 a - 52\<close>, but not below \<open>2^(-1074)\<close> (subnormal
  numbers). The significand is \<open>a / 2^e\<close> rounded to an integer \<open>m\<close>, and the rounded
  magnitude is \<open>m * 2^e\<close>. A rounded magnitude of \<open>2^1024\<close> or more overflows; as \<open>m\<close> is
  at most \<open>2^53 = 9007199254740992\<close>, that is the case exactly when \<open>e > 971\<close>, or
  \<open>e = 971\<close> and \<open>m = 2^53\<close>.
\<close>

definition ulp_exponent :: "rat \<Rightarrow> int" where
  "ulp_exponent a = max (ilog2 a - 52) (- 1074)"

definition pack :: "int \<Rightarrow> int \<Rightarrow> rat option" where
  "pack e m = (if 971 < e \<or> (e = 971 \<and> 9007199254740992 \<le> m) then None
               else Some (of_int m * pow2 e))"

definition round_at :: "rat \<Rightarrow> int \<Rightarrow> rat option" where
  "round_at a e = pack e (round_half_even (a / pow2 e))"

definition round_magnitude :: "rat \<Rightarrow> rat option" where
  "round_magnitude a = round_at a (ulp_exponent a)"

definition round_binary64 :: "rat \<Rightarrow> pyfloat" where
  "round_binary64 x =
     (if x = 0 then Fin 0
      else if 0 < x
      then (case round_magnitude x of None \<Rightarrow> PInf | Some y \<Rightarrow> Fin y)
      else (case round_magnitude (- x) of None \<Rightarrow> NInf | Some y \<Rightarrow> Fin (- y)))"

definition signed_inf :: "rat \<Rightarrow> pyfloat" where
  "signed_inf s = (if s = 0 then NaN else if 0 < s then PInf else NInf)"

fun fneg :: "pyfloat \<Rightarrow> pyfloat" where
  "fneg (Fin x) = Fin (- x)"
| "fneg PInf = NInf"
| "fneg NInf = PInf"
| "fneg NaN = NaN"

fun fabs :: "pyfloat \<Rightarrow> pyfloat" where
  "fabs (Fin x) = Fin \<bar>x\<bar>"
| "fabs PInf = PInf"
| "fabs NInf = PInf"
| "fabs NaN = NaN"

fun fadd :: "pyfloat \<Rightarrow> pyfloat \<Rightarrow> pyfloat" where
  "fadd (Fin x) (Fin y) = round_binary64 (x + y)"
| "fadd NaN _ = NaN"
| "fadd _ NaN = NaN"
| "fadd PInf NInf = NaN"
| "fadd NInf PInf = NaN"
| "fadd PInf _ = PInf"
| "fadd _ PInf = PInf"
| "fadd NInf _ = NInf"
| "fadd _ NInf = NInf"

definition fsub :: "pyfloat \<Rightarrow> pyfloat \<Rightarrow> pyfloat" where
  "fsub x y = fadd x (fneg y)"

fun fmul :: "pyfloat \<Rightarrow> pyfloat \<Rightarrow> pyfloat" where
  "fmul (Fin x) (Fin y) = round_binary64 (x * y)"
| "fmul NaN _ = NaN"
| "fmul _ NaN = NaN"
| "fmul (Fin x) PInf = signed_inf x"
| "fmul (Fin x) NInf = signed_inf (- x)"
| "fmul PInf (Fin y) = signed_inf y"
| "fmul NInf (Fin y) = signed_inf (- y)"
| "fmul PInf PInf = PInf"
| "fmul PInf NInf = NInf"
| "fmul NInf PInf = NInf"
| "fmul NInf NInf = PInf"

text \<open>
  Python's \<open>/\<close> on floats raises \<open>ZeroDivisionError\<close> when the divisor is zero, whatever the
  dividend; otherwise it is the IEEE division \<open>fdiv\<close>. The value of \<open>fdiv\<close> at a zero divisor is
  never read by \<open>py_truediv\<close>; it is set to NaN.
\<close>

fun fdiv :: "pyfloat \<Rightarrow> pyfloat \<Rightarrow> pyfloat" where
  "fdiv (Fin x) (Fin y) = (if y = 0 then NaN else round_binary64 (x / y))"
| "fdiv NaN _ = NaN"
| "fdiv _ NaN = NaN"
| "fdiv PInf (Fin y) = signed_inf y"
| "fdiv NInf (Fin y) = signed_inf (- y)"
| "fdiv (Fin x) PInf = Fin 0"
| "fdiv (Fin x) NInf = Fin 0"
| "fdiv PInf PInf = NaN"
| "fdiv PInf NInf = NaN"
| "fdiv NInf PInf = NaN"
| "fdiv NInf NInf = NaN"

definition py_truediv :: "pyfloat \<Rightarrow> pyfloat \<Rightarrow> error + pyfloat" where
  "py_truediv x y = (if y = Fin 0 then Inl ZeroDivisionError else Inr (fdiv x y))"

text \<open>Comparisons: every comparison with NaN is false.\<close>

fun flt :: "pyfloat \<Rightarrow> pyfloat \<Rightarrow> bool" where
  "flt (Fin x) (Fin y) = (x < y)"
| "flt (Fin x) PInf = True"
| "flt NInf (Fin y) = True"
| "flt NInf PInf = True"
| "flt _ _ = False"

definition fle :: "pyfloat \<Rightarrow> pyfloat \<Rightarrow> bool" where
  "fle x y = (flt x y \<or> (x = y \<and> x \<noteq> NaN))"

definition fgt :: "pyfloat \<Rightarrow> pyfloat \<Rightarrow> bool" where
  "fgt x y = flt y x"

definition fge :: "pyfloat \<Rightarrow> pyfloat \<Rightarrow> bool" where
  "fge x y = fle y x"

text \<open>
  The decimal literals of the scripts that are not binary fractions. A literal denotes the
  binary64 value nearest to its decimal value.
\<close>

definition lit_0_1 :: pyfloat where
  "lit_0_1 = round_binary64 (1 / 10)"

definition lit_1e_8 :: pyfloat where
  "lit_1e_8 = round_binary64 (1 / 10 ^ 8)"

definition lit_1e_9 :: pyfloat where
  "lit_1e_9 = round_binary64 (1 / 10 ^ 9)"

definition lit_1e_10 :: pyfloat where
  "lit_1e_10 = round_binary64 (1 / 10 ^ 10)"

definition lit_1e_12 :: pyfloat where
  "lit_1e_12 = round_binary64 (1 / 10 ^ 12)"

text \<open>Running a fallible step over a list, stopping at the first error.\<close>

primrec traverse :: "('a \<Rightarrow> error + 'b) \<Rightarrow> 'a list \<Rightarrow> error + 'b list" where
  "traverse f [] = Inr []"
| "traverse f (x # xs) =
     (case f x of Inl e \<Rightarrow> Inl e
      | Inr y \<Rightarrow> (case traverse f xs of Inl e \<Rightarrow> Inl e | Inr ys \<Rightarrow> Inr (y # ys)))"

section \<open>The parameter grid scanner (scan_healthy_band.py)\<close>

definition X0 :: pyfloat where
  "X0 = Fin 1"

definition PPRIME_MIN :: pyfloat where
  "PPRIME_MIN = fneg (Fin 2)"

definition PPRIME_MAX :: pyfloat where
  "PPRIME_MAX = Fin 2"

definition PPRIME_STEP :: pyfloat where
  "PPRIME_STEP = lit_0_1"

definition P2PRIME_MIN :: pyfloat where
  "P2PRIME_MIN = fneg (Fin 2)"

definition P2PRIME_MAX :: pyfloat where
  "P2PRIME_MAX = Fin 2"

definition P2PRIME_STEP :: pyfloat where
  "P2PRIME_STEP = lit_0_1"

text \<open>
  \<open>frange\<close> is a generator around a \<open>while\<close> loop that need not end (a step of zero never
  passes the bound), so the list of the values it yields is an \<open>option\<close>: \<open>None\<close> when the
  loop runs forever. The first argument is the loop variable \<open>x\<close>, which starts at \<open>start\<close>.
\<close>

partial_function (option) frange :: "pyfloat \<Rightarrow> pyfloat \<Rightarrow> pyfloat \<Rightarrow> pyfloat list option" where
  "frange x stop step =
     (if fle x (fadd stop lit_1e_9)
      then Option.bind (frange (fadd x step) stop step) (\<lambda>xs. Some (x # xs))
      else Some [])"

text \<open>
  The values of the loop variables once the body has computed them (lines 37 to 43 of the
  script): \<open>cs2\<close> is \<open>None\<close> when the division is not made.
\<close>

record grid_vals =
  val_Pprime :: pyfloat
  val_P2prime :: pyfloat
  val_Zs :: pyfloat
  val_Zt :: pyfloat
  val_cs2 :: "pyfloat option"
  val_ghost_ok :: bool
  val_grad_ok :: bool

definition scan_Zt :: "pyfloat \<Rightarrow> pyfloat \<Rightarrow> pyfloat" where
  "scan_Zt Pprime P2prime = fadd Pprime (fmul (fmul (Fin 2) X0) P2prime)"

definition scan_vals :: "pyfloat \<Rightarrow> pyfloat \<Rightarrow> error + grid_vals" where
  "scan_vals Pprime P2prime =
     (let Zs = Pprime;
          Zt = scan_Zt Pprime P2prime;
          ghost_ok = fgt Zt (Fin 0);
          grad_ok = fgt Zs (Fin 0)
      in case (if ghost_ok
               then (case py_truediv Zs Zt of Inl e \<Rightarrow> Inl e | Inr c \<Rightarrow> Inr (Some c))
               else Inr None) of
           Inl e \<Rightarrow> Inl e
         | Inr cs2 \<Rightarrow>
             Inr \<lparr>val_Pprime = Pprime, val_P2prime = P2prime, val_Zs = Zs, val_Zt = Zt,
                  val_cs2 = cs2, val_ghost_ok = ghost_ok, val_grad_ok = grad_ok\<rparr>)"

text \<open>
  The text that the format \<open>.3f\<close> writes for a float, given by the number it denotes:
  \<open>Dec t\<close> is the decimal numeral with three places of value \<open>t / 1000\<close>, so \<open>-2.000\<close> is
  \<open>Dec (-2000)\<close>; the other three are the texts \<open>inf\<close>, \<open>-inf\<close> and \<open>nan\<close>. The conversion
  rounds the exact value of the float to three places, ties to even. A negative float that
  rounds to zero is written \<open>-0.000\<close>; it denotes zero and is \<open>Dec 0\<close> here, as the two
  zeros are not told apart.
\<close>

datatype cell = Dec int | CInf | CNegInf | CNaN

fun fmt3 :: "pyfloat \<Rightarrow> cell" where
  "fmt3 (Fin x) =
     Dec (if 0 \<le> x then round_half_even (x * 1000) else - round_half_even (- x * 1000))"
| "fmt3 PInf = CInf"
| "fmt3 NInf = CNegInf"
| "fmt3 NaN = CNaN"

text \<open>\<open>cell_pos c\<close>: the number that the text \<open>c\<close> denotes is greater than zero.\<close>

fun cell_pos :: "cell \<Rightarrow> bool" where
  "cell_pos (Dec t) = (0 < t)"
| "cell_pos CInf = True"
| "cell_pos CNegInf = False"
| "cell_pos CNaN = False"

text \<open>
  One row of \<open>data/healthy_band_scan.csv\<close> as it is written (lines 44 to 52): the five
  floats formatted with \<open>.3f\<close>, where \<open>cs2\<close> is \<open>None\<close> for the empty string, and the two
  flags as \<open>int(ghost_ok)\<close> and \<open>int(grad_ok)\<close>.
\<close>

record grid_row =
  row_Pprime :: cell
  row_P2prime :: cell
  row_Zs :: cell
  row_Zt :: cell
  row_cs2 :: "cell option"
  row_ghost_ok :: int
  row_grad_ok :: int

definition write_row :: "grid_vals \<Rightarrow> grid_row" where
  "write_row v =
     \<lparr>row_Pprime = fmt3 (val_Pprime v), row_P2prime = fmt3 (val_P2prime v),
      row_Zs = fmt3 (val_Zs v), row_Zt = fmt3 (val_Zt v),
      row_cs2 = (case val_cs2 v of None \<Rightarrow> None | Some c \<Rightarrow> Some (fmt3 c)),
      row_ghost_ok = of_bool (val_ghost_ok v), row_grad_ok = of_bool (val_grad_ok v)\<rparr>"

text \<open>The body of the inner loop: the row written for one pair of the grid.\<close>

definition scan_row :: "pyfloat \<Rightarrow> pyfloat \<Rightarrow> error + grid_row" where
  "scan_row Pprime P2prime =
     (case scan_vals Pprime P2prime of Inl e \<Rightarrow> Inl e | Inr v \<Rightarrow> Inr (write_row v))"

text \<open>
  The outer loop over the values of \<open>Pprime\<close>; the inner generator is created afresh for each
  of them. The result is \<open>None\<close> when a generator never ends, \<open>Some (Inl e)\<close> when a row
  raises, and \<open>Some (Inr rows)\<close> with the rows written, in order, otherwise.
\<close>

fun scan_outer :: "pyfloat list \<Rightarrow> (error + grid_row list) option" where
  "scan_outer [] = Some (Inr [])"
| "scan_outer (Pprime # rest) =
     (case frange P2PRIME_MIN P2PRIME_MAX P2PRIME_STEP of
        None \<Rightarrow> None
      | Some p2s \<Rightarrow>
          (case traverse (scan_row Pprime) p2s of
             Inl e \<Rightarrow> Some (Inl e)
           | Inr rows \<Rightarrow>
               (case scan_outer rest of
                  None \<Rightarrow> None
                | Some (Inl e) \<Rightarrow> Some (Inl e)
                | Some (Inr later) \<Rightarrow> Some (Inr (rows @ later)))))"

definition scan_healthy_band :: "(error + grid_row list) option" where
  "scan_healthy_band =
     (case frange PPRIME_MIN PPRIME_MAX PPRIME_STEP of
        None \<Rightarrow> None
      | Some ps \<Rightarrow> scan_outer ps)"

text \<open>
  The number of grid values on one axis as the specification writes it,
  \<open>(MAX - MIN) / STEP + 1\<close>, evaluated in floats. It is not part of the script; the
  script's count is the length of the list that \<open>frange\<close> yields.
\<close>

definition spec_axis_count :: "pyfloat \<Rightarrow> pyfloat \<Rightarrow> pyfloat \<Rightarrow> error + pyfloat" where
  "spec_axis_count lo hi step =
     (case py_truediv (fsub hi lo) step of Inl e \<Rightarrow> Inl e | Inr d \<Rightarrow> Inr (fadd d (Fin 1)))"

text \<open>
  Closed forms, used in the proofs below: the loop variables and the row written for a pair
  (\<open>scan_vals_eq\<close> and \<open>scan_row_eq\<close> show that the loop body returns them); the 41 values
  that the generator yields for the bounds \<open>-2.0\<close>, \<open>2.0\<close> and the step \<open>0.1\<close>
  (\<open>frange_default\<close>), which are the accumulated sums \<open>-2.0 + 0.1 + 0.1 + ...\<close> as binary64
  values; and the rows that the script writes (\<open>scan_healthy_band_eq\<close>).
\<close>

definition grid_vals_of :: "pyfloat \<Rightarrow> pyfloat \<Rightarrow> grid_vals" where
  "grid_vals_of Pprime P2prime =
     \<lparr>val_Pprime = Pprime, val_P2prime = P2prime, val_Zs = Pprime,
      val_Zt = scan_Zt Pprime P2prime,
      val_cs2 = (if fgt (scan_Zt Pprime P2prime) (Fin 0)
                 then Some (fdiv Pprime (scan_Zt Pprime P2prime)) else None),
      val_ghost_ok = fgt (scan_Zt Pprime P2prime) (Fin 0),
      val_grad_ok = fgt Pprime (Fin 0)\<rparr>"

definition grid_row_of :: "pyfloat \<Rightarrow> pyfloat \<Rightarrow> grid_row" where
  "grid_row_of Pprime P2prime = write_row (grid_vals_of Pprime P2prime)"

definition grid_axis :: "pyfloat list" where
  "grid_axis =
  [Fin (- 2), Fin (- (4278419646001971 / 2251799813685248)),
   Fin (- (2026619832316723 / 1125899906842624)),
   Fin (- (3828059683264921 / 2251799813685248)),
   Fin (- (900719925474099 / 562949953421312)),
   Fin (- (3377699720527871 / 2251799813685248)),
   Fin (- (1576259869579673 / 1125899906842624)),
   Fin (- (2927339757790821 / 2251799813685248)),
   Fin (- (337769972052787 / 281474976710656)),
   Fin (- (2476979795053771 / 2251799813685248)),
   Fin (- (9007199254740985 / 9007199254740992)),
   Fin (- (4053239664633443 / 4503599627370496)),
   Fin (- (7205759403792787 / 9007199254740992)),
   Fin (- (197032483697459 / 281474976710656)),
   Fin (- (5404319552844589 / 9007199254740992)),
   Fin (- (2251799813685245 / 4503599627370496)),
   Fin (- (3602879701896391 / 9007199254740992)),
   Fin (- (675539944105573 / 2251799813685248)),
   Fin (- (7205759403792771 / 36028797018963968)),
   Fin (- (1801439850948187 / 18014398509481984)),
   Fin (23 / 36028797018963968), Fin (900719925474105 / 9007199254740992),
   Fin (7205759403792817 / 36028797018963968),
   Fin (5404319552844607 / 18014398509481984),
   Fin (3602879701896403 / 9007199254740992),
   Fin (2251799813685251 / 4503599627370496),
   Fin (5404319552844601 / 9007199254740992),
   Fin (1576259869579675 / 2251799813685248),
   Fin (7205759403792799 / 9007199254740992),
   Fin (4053239664633449 / 4503599627370496),
   Fin (4503599627370499 / 4503599627370496),
   Fin (4953959590107549 / 4503599627370496),
   Fin (5404319552844599 / 4503599627370496),
   Fin (5854679515581649 / 4503599627370496),
   Fin (6305039478318699 / 4503599627370496),
   Fin (6755399441055749 / 4503599627370496),
   Fin (7205759403792799 / 4503599627370496),
   Fin (7656119366529849 / 4503599627370496),
   Fin (8106479329266899 / 4503599627370496),
   Fin (8556839292003949 / 4503599627370496),
   Fin (4503599627370499 / 2251799813685248)]"

definition scan_output :: "grid_row list" where
  "scan_output = concat (map (\<lambda>p. map (grid_row_of p) grid_axis) grid_axis)"

section \<open>The tensor contraction sampler (check_spin2_structure.py)\<close>

text \<open>
  Four-vectors and tensors are Python lists, indexed by the values of \<open>range(4)\<close>. The
  functions below read components \<open>0\<close> to \<open>3\<close> of their arguments, so they model the script
  on lists of four components, which are the only ones the script builds.
\<close>

definition range4 :: "nat list" where
  "range4 = [0, 1, 2, 3]"

definition eta :: "pyfloat list list" where
  "eta = [[Fin (- 1), Fin 0, Fin 0, Fin 0],
          [Fin 0, Fin 1, Fin 0, Fin 0],
          [Fin 0, Fin 0, Fin 1, Fin 0],
          [Fin 0, Fin 0, Fin 0, Fin 1]]"

text \<open>
  \<open>-k[0] * k[0] + sum(k[i] * k[i] for i in range(1, 4))\<close>: the unary minus binds first, and
  \<open>sum\<close> adds the squares from the left onto its start value \<open>0\<close>. (CPython from version
  3.12 on compensates the rounding errors of a sum of floats; the result is the same whenever
  the partial sums are exact, as they are for every vector of the script's sweep. The
  theorems below that hold for every vector do not depend on how the sum is rounded.)
\<close>

definition minkowski_k2 :: "pyfloat list \<Rightarrow> pyfloat" where
  "minkowski_k2 k =
     fadd (fmul (fneg (k ! 0)) (k ! 0))
          (foldl (\<lambda>acc i. fadd acc (fmul (k ! i) (k ! i))) (Fin 0) [1, 2, 3])"

definition theta_entry :: "pyfloat list \<Rightarrow> pyfloat \<Rightarrow> nat \<Rightarrow> nat \<Rightarrow> error + pyfloat" where
  "theta_entry k k2 mu nu =
     (case py_truediv (fmul (k ! mu) (k ! nu)) k2 of
        Inl e \<Rightarrow> Inl e
      | Inr d \<Rightarrow> Inr (fsub (if mu = nu then eta ! mu ! nu else Fin 0) d))"

definition theta_tensor :: "pyfloat list \<Rightarrow> error + pyfloat list list" where
  "theta_tensor k =
     (if flt (fabs (minkowski_k2 k)) lit_1e_10 then Inl ValueError
      else traverse (\<lambda>mu. traverse (\<lambda>nu. theta_entry k (minkowski_k2 k) mu nu) range4) range4)"

definition P2_entry :: "pyfloat list list \<Rightarrow> nat \<Rightarrow> nat \<Rightarrow> nat \<Rightarrow> nat \<Rightarrow> error + pyfloat" where
  "P2_entry theta mu nu rho sigma =
     (case py_truediv (Fin 1) (Fin 3) of
        Inl e \<Rightarrow> Inl e
      | Inr third \<Rightarrow>
          Inr (fsub (fmul (Fin (1 / 2))
                       (fadd (fmul (theta ! mu ! rho) (theta ! nu ! sigma))
                             (fmul (theta ! mu ! sigma) (theta ! nu ! rho))))
                    (fmul (fmul third (theta ! mu ! nu)) (theta ! rho ! sigma))))"

definition P2_tensor :: "pyfloat list \<Rightarrow> error + pyfloat list list list list" where
  "P2_tensor k =
     (case theta_tensor k of
        Inl e \<Rightarrow> Inl e
      | Inr theta \<Rightarrow>
          traverse (\<lambda>mu. traverse (\<lambda>nu. traverse (\<lambda>rho. traverse (\<lambda>sigma.
            P2_entry theta mu nu rho sigma) range4) range4) range4) range4)"

definition N_tensor :: "pyfloat list \<Rightarrow> pyfloat list \<Rightarrow> pyfloat list list list list" where
  "N_tensor q k =
     map (\<lambda>mu. map (\<lambda>nu. map (\<lambda>rho. map (\<lambda>sigma.
       fmul (fadd (fmul (q ! mu) (k ! nu)) (fmul (q ! nu) (k ! mu)))
            (fadd (fmul (q ! rho) (k ! sigma)) (fmul (q ! sigma) (k ! rho))))
       range4) range4) range4) range4"

definition contract_P2_N :: "pyfloat list list list list \<Rightarrow> pyfloat list list list list \<Rightarrow> pyfloat" where
  "contract_P2_N P2 N =
     foldl (\<lambda>v1 mu. foldl (\<lambda>v2 nu. foldl (\<lambda>v3 rho. foldl (\<lambda>val sigma.
       fadd val (fmul (P2 ! mu ! nu ! rho ! sigma) (N ! mu ! nu ! rho ! sigma)))
       v3 range4) v2 range4) v1 range4) (Fin 0) range4"

definition q0 :: pyfloat where
  "q0 = Fin 1"

definition q :: "pyfloat list" where
  "q = [q0, Fin 0, Fin 0, Fin 0]"

text \<open>One row of \<open>data/spin2_F2_samples.csv\<close>: the dictionary appended to \<open>rows\<close>.\<close>

record sample =
  smp_omega :: pyfloat
  smp_kx :: pyfloat
  smp_ky :: pyfloat
  smp_kz :: pyfloat
  smp_k2 :: pyfloat
  smp_F2 :: pyfloat

text \<open>
  The body of the innermost loop for one swept vector: \<open>Inr None\<close> is a \<open>continue\<close> (by the
  outer check, or by the \<open>ValueError\<close> caught around \<open>P2_tensor\<close>), \<open>Inr (Some r)\<close> is the
  record appended, and \<open>Inl e\<close> is an exception that the loop does not catch.
\<close>

definition sample_point :: "pyfloat \<times> pyfloat \<times> pyfloat \<times> pyfloat \<Rightarrow> error + sample option" where
  "sample_point pt =
     (case pt of (omega, kx, ky, kz) \<Rightarrow>
        if flt (fabs (minkowski_k2 [omega, kx, ky, kz])) lit_1e_8 then Inr None
        else (case P2_tensor [omega, kx, ky, kz] of
                Inl ValueError \<Rightarrow> Inr None
              | Inl e \<Rightarrow> Inl e
              | Inr P2 \<Rightarrow>
                  Inr (Some \<lparr>smp_omega = omega, smp_kx = kx, smp_ky = ky, smp_kz = kz,
                             smp_k2 = minkowski_k2 [omega, kx, ky, kz],
                             smp_F2 = contract_P2_N P2 (N_tensor q [omega, kx, ky, kz])\<rparr>)))"

text \<open>The four nested loops enumerate the swept vectors in this order.\<close>

definition sweep :: "pyfloat list \<Rightarrow> pyfloat list \<Rightarrow> pyfloat list \<Rightarrow> pyfloat list
    \<Rightarrow> (pyfloat \<times> pyfloat \<times> pyfloat \<times> pyfloat) list" where
  "sweep omegas kxs kys kzs =
     concat (map (\<lambda>omega. concat (map (\<lambda>kx. concat (map (\<lambda>ky. map (\<lambda>kz.
       (omega, kx, ky, kz)) kzs) kys)) kxs)) omegas)"

fun sampler_loop :: "(pyfloat \<times> pyfloat \<times> pyfloat \<times> pyfloat) list \<Rightarrow> sample list
    \<Rightarrow> error + sample list" where
  "sampler_loop [] rows = Inr rows"
| "sampler_loop (pt # pts) rows =
     (case sample_point pt of
        Inl e \<Rightarrow> Inl e
      | Inr None \<Rightarrow> sampler_loop pts rows
      | Inr (Some r) \<Rightarrow> sampler_loop pts (rows @ [r]))"

definition main_sweep :: "(pyfloat \<times> pyfloat \<times> pyfloat \<times> pyfloat) list" where
  "main_sweep = sweep [Fin (1 / 2), Fin 1, Fin (3 / 2), Fin 2] [Fin (1 / 2), Fin 1, Fin (3 / 2)]
                      [Fin 0] [Fin 0]"

definition check_spin2_structure :: "error + sample list" where
  "check_spin2_structure = sampler_loop main_sweep []"

text \<open>
  Closed forms, used in the proofs below: the entries of \<open>theta\<close> and of the projector when
  no exception is raised (\<open>theta_tensor_eq\<close>, \<open>P2_tensor_eq\<close>), where \<open>lit_third\<close> is the
  float that \<open>1.0 / 3.0\<close> evaluates to (\<open>third_val\<close>); the record appended for a retained
  vector (\<open>sample_point_eq\<close>); and the list of records that the loop body appends for one
  swept vector.
\<close>

definition theta_val :: "pyfloat list \<Rightarrow> nat \<Rightarrow> nat \<Rightarrow> pyfloat" where
  "theta_val k mu nu =
     fsub (if mu = nu then eta ! mu ! nu else Fin 0)
          (fdiv (fmul (k ! mu) (k ! nu)) (minkowski_k2 k))"

definition theta_of :: "pyfloat list \<Rightarrow> pyfloat list list" where
  "theta_of k = map (\<lambda>mu. map (\<lambda>nu. theta_val k mu nu) range4) range4"

definition lit_third :: pyfloat where
  "lit_third = Fin (6004799503160661 / 18014398509481984)"

definition P2_term1 :: "pyfloat list list \<Rightarrow> nat \<Rightarrow> nat \<Rightarrow> nat \<Rightarrow> nat \<Rightarrow> pyfloat" where
  "P2_term1 theta mu nu rho sigma =
     fmul (Fin (1 / 2))
          (fadd (fmul (theta ! mu ! rho) (theta ! nu ! sigma))
                (fmul (theta ! mu ! sigma) (theta ! nu ! rho)))"

definition P2_term2 :: "pyfloat list list \<Rightarrow> nat \<Rightarrow> nat \<Rightarrow> nat \<Rightarrow> nat \<Rightarrow> pyfloat" where
  "P2_term2 theta mu nu rho sigma = fmul (fmul lit_third (theta ! mu ! nu)) (theta ! rho ! sigma)"

definition P2_val :: "pyfloat list list \<Rightarrow> nat \<Rightarrow> nat \<Rightarrow> nat \<Rightarrow> nat \<Rightarrow> pyfloat" where
  "P2_val theta mu nu rho sigma =
     fsub (P2_term1 theta mu nu rho sigma) (P2_term2 theta mu nu rho sigma)"

definition P2_of :: "pyfloat list list \<Rightarrow> pyfloat list list list list" where
  "P2_of theta =
     map (\<lambda>mu. map (\<lambda>nu. map (\<lambda>rho. map (\<lambda>sigma. P2_val theta mu nu rho sigma)
       range4) range4) range4) range4"

definition k_of :: "pyfloat \<times> pyfloat \<times> pyfloat \<times> pyfloat \<Rightarrow> pyfloat list" where
  "k_of pt = (case pt of (omega, kx, ky, kz) \<Rightarrow> [omega, kx, ky, kz])"

definition emitted :: "pyfloat \<times> pyfloat \<times> pyfloat \<times> pyfloat \<Rightarrow> sample list" where
  "emitted pt = (case sample_point pt of Inr (Some r) \<Rightarrow> [r] | _ \<Rightarrow> [])"

definition sample_of :: "pyfloat \<times> pyfloat \<times> pyfloat \<times> pyfloat \<Rightarrow> sample" where
  "sample_of pt =
     (case pt of (omega, kx, ky, kz) \<Rightarrow>
        \<lparr>smp_omega = omega, smp_kx = kx, smp_ky = ky, smp_kz = kz,
         smp_k2 = minkowski_k2 [omega, kx, ky, kz],
         smp_F2 = contract_P2_N (P2_of (theta_of [omega, kx, ky, kz]))
                                (N_tensor q [omega, kx, ky, kz])\<rparr>)"

section \<open>The report generator (make_all_figures_and_tables.py)\<close>

text \<open>The derived field \<open>y_vals\<close> of \<open>make_fig_healthy_band\<close>, with its own local \<open>X0\<close>.\<close>

definition fig_X0 :: pyfloat where
  "fig_X0 = Fin 1"

definition fig_y :: "pyfloat \<Rightarrow> pyfloat \<Rightarrow> pyfloat" where
  "fig_y p p2 = fadd p (fmul (fmul (Fin 2) fig_X0) p2)"

definition y_vals :: "pyfloat list \<Rightarrow> pyfloat list \<Rightarrow> pyfloat list" where
  "y_vals Pprime P2prime = map (\<lambda>(p, p2). fig_y p p2) (zip Pprime P2prime)"

text \<open>
  \<open>float(s)\<close> for the text of a cell: the binary64 value nearest to the decimal numeral.
  \<open>load_healthy_band\<close> reads six columns of the rows back, and \<open>main\<close> hands the first two
  to \<open>make_fig_healthy_band\<close>, which computes \<open>y_vals\<close> from them.
\<close>

fun float_of_cell :: "cell \<Rightarrow> pyfloat" where
  "float_of_cell (Dec t) = round_binary64 (of_int t / 1000)"
| "float_of_cell CInf = PInf"
| "float_of_cell CNegInf = NInf"
| "float_of_cell CNaN = NaN"

definition load_healthy_band ::
    "grid_row list \<Rightarrow> pyfloat list \<times> pyfloat list \<times> pyfloat list \<times> pyfloat list \<times> int list \<times> int list" where
  "load_healthy_band rows =
     (map (\<lambda>r. float_of_cell (row_Pprime r)) rows,
      map (\<lambda>r. float_of_cell (row_P2prime r)) rows,
      map (\<lambda>r. float_of_cell (row_Zs r)) rows,
      map (\<lambda>r. float_of_cell (row_Zt r)) rows,
      map row_ghost_ok rows,
      map row_grad_ok rows)"

definition report_y_vals :: "grid_row list \<Rightarrow> pyfloat list" where
  "report_y_vals rows =
     (case load_healthy_band rows of
        (Pprime, P2prime, Zs, Zt, ghost_ok, grad_ok) \<Rightarrow> y_vals Pprime P2prime)"

text \<open>
  The numbers that \<open>make_table_spin2_F2_stats\<close> interpolates into the table. Python's \<open>min\<close>
  and \<open>max\<close> keep the first item and replace it by a later one that compares strictly
  smaller (greater).
\<close>

record F2_stats =
  total :: nat
  n_pos :: nat
  n_neg :: nat
  n_zero :: nat
  F2_min :: pyfloat
  F2_max :: pyfloat

fun py_min :: "pyfloat list \<Rightarrow> pyfloat" where
  "py_min [] = NaN"
| "py_min (x # xs) = foldl (\<lambda>m v. if flt v m then v else m) x xs"

fun py_max :: "pyfloat list \<Rightarrow> pyfloat" where
  "py_max [] = NaN"
| "py_max (x # xs) = foldl (\<lambda>m v. if fgt v m then v else m) x xs"

definition make_table_spin2_F2_stats :: "pyfloat list \<Rightarrow> F2_stats" where
  "make_table_spin2_F2_stats F2 =
     \<lparr>total = length F2,
      n_pos = length (filter (\<lambda>v. fgt v (Fin 0)) F2),
      n_neg = length (filter (\<lambda>v. flt v (Fin 0)) F2),
      n_zero = length (filter (\<lambda>v. flt (fabs v) lit_1e_12) F2),
      F2_min = py_min F2,
      F2_max = py_max F2\<rparr>"

section \<open>Evaluating the float operations\<close>

lemma bitlen_0 [simp]: "bitlen 0 = 0"
  by (simp add: bitlen.simps)

lemma bitlen_1 [simp]: "bitlen 1 = 1"
  by (simp add: bitlen.simps)

lemma bitlen_numeral [simp]: "bitlen (numeral n) = 1 + bitlen (numeral n div 2)"
  by (subst bitlen.simps) simp

lemma floor_rat_numeral_divide [simp]:
  "\<lfloor>numeral a / numeral b :: rat\<rfloor> = numeral a div numeral b"
  by (metis floor_divide_of_int_eq of_int_numeral)

lemma floor_rat_one_divide [simp]:
  "\<lfloor>1 / numeral b :: rat\<rfloor> = 1 div numeral b"
  by (metis floor_divide_of_int_eq of_int_numeral of_int_1)

lemmas fl_eval = round_binary64_def round_magnitude_def round_at_def pack_def ulp_exponent_def
  ilog2_def ilog2_fix_def round_half_even_def round_from_floor_def pow2_def

lemma lit_0_1_val: "lit_0_1 = Fin (3602879701896397 / 36028797018963968)"
  by (simp add: lit_0_1_def fl_eval)

lemma lit_1e_8_val: "lit_1e_8 = Fin (3022314549036573 / 302231454903657293676544)"
  by (simp add: lit_1e_8_def fl_eval)

lemma lit_1e_9_val: "lit_1e_9 = Fin (4835703278458517 / 4835703278458516698824704)"
  by (simp add: lit_1e_9_def fl_eval)

lemma lit_1e_10_val: "lit_1e_10 = Fin (7737125245533627 / 77371252455336267181195264)"
  by (simp add: lit_1e_10_def fl_eval)

lemma lit_1e_12_val: "lit_1e_12 = Fin (4951760157141521 / 4951760157141521099596496896)"
  by (simp add: lit_1e_12_def fl_eval)

section \<open>Rounding at the boundaries of binary64\<close>

text \<open>
  Checks of \<open>round_binary64\<close> against the IEEE 754 format: ties go to the even significand,
  53-bit significands are kept, the least subnormal number is \<open>2^(-1074)\<close>, and the largest
  finite number is \<open>(2^53 - 1) * 2^971\<close>.
\<close>

lemma round_ties_to_even:
  "round_binary64 (1 + 1 / 2 ^ 53) = Fin 1"
  "round_binary64 (1 + 3 / 2 ^ 53) = Fin (1 + 4 / 2 ^ 53)"
  "round_binary64 (- (1 + 3 / 2 ^ 53)) = Fin (- (1 + 4 / 2 ^ 53))"
  by (simp_all add: fl_eval)

lemma round_representable:
  "round_binary64 (9007199254740991 / 2 ^ 60) = Fin (9007199254740991 / 2 ^ 60)"
  "round_binary64 (9007199254740993) = Fin 9007199254740992"
  "round_binary64 (1 / 3) = Fin (6004799503160661 / 2 ^ 54)"
  by (simp_all add: fl_eval)

lemma round_subnormal:
  "round_binary64 (1 / 2 ^ 1074) = Fin (1 / 2 ^ 1074)"
  "round_binary64 (1 / 2 ^ 1075) = Fin 0"
  "round_binary64 (3 / 2 ^ 1075) = Fin (2 / 2 ^ 1074)"
  by (simp_all add: fl_eval)

lemma round_overflow:
  "round_binary64 ((2 ^ 53 - 1) * 2 ^ 971) = Fin ((2 ^ 53 - 1) * 2 ^ 971)"
  "round_binary64 (2 ^ 1024 - 2 ^ 970) = PInf"
  "round_binary64 (2 ^ 970 - 2 ^ 1024) = NInf"
  "round_binary64 (2 ^ 1024 - 2 ^ 970 - 1) = Fin ((2 ^ 53 - 1) * 2 ^ 971)"
  by (simp_all add: fl_eval)

section \<open>The rounding error\<close>

text \<open>
  A finite result of \<open>round_binary64\<close> differs from the exact value by at most half a unit
  in the last place: a relative error of \<open>2^(-53)\<close>, or \<open>2^(-1075)\<close> in the subnormal range.
\<close>

lemma bitlen_nonneg: "0 \<le> bitlen n"
  by (induction n rule: bitlen.induct) (subst bitlen.simps, simp)

lemma bitlen_upper: "0 \<le> n \<Longrightarrow> n < 2 ^ nat (bitlen n)"
proof (induction n rule: bitlen.induct)
  case (1 n)
  show ?case
  proof (cases "n \<le> 0")
    case True
    with "1.prems" show ?thesis by (subst bitlen.simps) simp
  next
    case False
    then have "n div 2 < 2 ^ nat (bitlen (n div 2))"
      using "1.IH" by simp
    then have "n < 2 * 2 ^ nat (bitlen (n div 2))"
      by linarith
    moreover have "nat (bitlen n) = Suc (nat (bitlen (n div 2)))"
      using False bitlen_nonneg [of "n div 2"] by (subst bitlen.simps) simp
    ultimately show ?thesis by simp
  qed
qed

lemma bitlen_lower: "0 < n \<Longrightarrow> 2 ^ nat (bitlen n - 1) \<le> n"
proof (induction n rule: bitlen.induct)
  case (1 n)
  then have pos: "\<not> n \<le> 0" by simp
  have eq: "bitlen n - 1 = bitlen (n div 2)"
    using pos by (subst bitlen.simps) simp
  show ?case
  proof (cases "n = 1")
    case True
    then show ?thesis by (simp add: eq bitlen.simps)
  next
    case False
    with "1.prems" have h: "0 < n div 2" by linarith
    with "1.IH" pos have "2 ^ nat (bitlen (n div 2) - 1) \<le> n div 2" by simp
    then have "2 * 2 ^ nat (bitlen (n div 2) - 1) \<le> n" by linarith
    moreover have "bitlen (n div 2) = 1 + bitlen (n div 2 div 2)"
      using h by (subst bitlen.simps) simp
    then have "0 < bitlen (n div 2)"
      using bitlen_nonneg [of "n div 2 div 2"] by linarith
    then have "nat (bitlen (n div 2)) = Suc (nat (bitlen (n div 2) - 1))"
      by simp
    ultimately show ?thesis by (simp add: eq)
  qed
qed

lemma pow2_pos: "0 < pow2 e"
  by (simp add: pow2_def)

lemma pow2_powi: "pow2 e = 2 powi e"
proof (cases "0 \<le> e")
  case True
  then show ?thesis by (simp add: pow2_def power_int_def)
next
  case False
  then show ?thesis
    unfolding pow2_def power_int_def
    by (simp only: if_False power_inverse inverse_eq_divide power_one_over)
qed

lemma pow2_add: "pow2 (a + b) = pow2 a * pow2 b"
  unfolding pow2_powi by (rule power_int_add) simp

lemma ilog2_lower: "0 < x \<Longrightarrow> pow2 (ilog2 x) \<le> x"
proof (cases "1 \<le> x")
  case True
  then have n: "0 < \<lfloor>x\<rfloor>" by linarith
  then have "0 \<le> bitlen \<lfloor>x\<rfloor> - 1"
    by (subst bitlen.simps) (simp add: bitlen_nonneg)
  then have "pow2 (bitlen \<lfloor>x\<rfloor> - 1) = of_int (2 ^ nat (bitlen \<lfloor>x\<rfloor> - 1))"
    by (simp add: pow2_def)
  also have "\<dots> \<le> of_int \<lfloor>x\<rfloor>"
    using bitlen_lower [OF n] by (simp only: of_int_le_iff)
  also have "\<dots> \<le> x" by simp
  finally show ?thesis using True by (simp add: ilog2_def)
next
  case False
  assume x: "0 < x"
  let ?n = "\<lfloor>1 / x\<rfloor>"
  let ?d = "- bitlen ?n"
  show ?thesis
  proof (cases "pow2 (?d + 1) \<le> x")
    case True
    with False show ?thesis by (simp add: ilog2_def ilog2_fix_def)
  next
    case nofix: False
    have "1 / x < of_int (?n + 1)" by linarith
    moreover have "0 \<le> ?n" using x by simp
    then have "?n < 2 ^ nat (bitlen ?n)" by (rule bitlen_upper)
    then have "?n + 1 \<le> 2 ^ nat (bitlen ?n)" by simp
    then have "(of_int (?n + 1) :: rat) \<le> of_int (2 ^ nat (bitlen ?n))"
      by (simp only: of_int_le_iff)
    ultimately have "1 / x < 2 ^ nat (bitlen ?n)" by simp
    with x have "1 / 2 ^ nat (bitlen ?n) < x"
      by (simp add: field_simps)
    moreover have "pow2 ?d = 1 / 2 ^ nat (bitlen ?n)"
      using bitlen_nonneg [of ?n] by (cases "bitlen ?n = 0") (simp_all add: pow2_def)
    ultimately have "pow2 ?d \<le> x" by simp
    with False nofix show ?thesis by (simp add: ilog2_def ilog2_fix_def)
  qed
qed

lemma round_half_even_error: "\<bar>of_int (round_half_even x) - x\<bar> \<le> 1 / 2"
proof -
  have "of_int \<lfloor>x\<rfloor> \<le> x" and "x < of_int \<lfloor>x\<rfloor> + 1" by linarith+
  then show ?thesis
    by (auto simp: round_half_even_def round_from_floor_def abs_le_iff)
qed

lemma round_magnitude_error:
  assumes "0 < a" and "round_magnitude a = Some y"
  shows "\<bar>y - a\<bar> \<le> a / 2 ^ 53 + 1 / 2 ^ 1075"
proof -
  let ?e = "ulp_exponent a"
  let ?m = "round_half_even (a / pow2 ?e)"
  from assms(2) have y: "y = of_int ?m * pow2 ?e"
    by (simp add: round_magnitude_def round_at_def pack_def split: if_splits)
  have "\<bar>of_int ?m - a / pow2 ?e\<bar> \<le> 1 / 2"
    by (rule round_half_even_error)
  then have "\<bar>of_int ?m - a / pow2 ?e\<bar> * pow2 ?e \<le> 1 / 2 * pow2 ?e"
    using pow2_pos [of ?e] by (simp only: mult_le_cancel_right_pos)
  moreover have "\<bar>of_int ?m - a / pow2 ?e\<bar> * pow2 ?e = \<bar>y - a\<bar>"
  proof -
    have "\<bar>of_int ?m - a / pow2 ?e\<bar> * pow2 ?e = \<bar>(of_int ?m - a / pow2 ?e) * pow2 ?e\<bar>"
      using pow2_pos [of ?e] by (simp add: abs_mult)
    also have "(of_int ?m - a / pow2 ?e) * pow2 ?e = y - a"
      using pow2_pos [of ?e] by (simp add: y field_simps)
    finally show ?thesis .
  qed
  ultimately have err: "\<bar>y - a\<bar> \<le> pow2 ?e / 2" by simp
  show ?thesis
  proof (cases "ilog2 a - 52 \<le> - 1074")
    case True
    then have "?e = - 1074" by (simp add: ulp_exponent_def)
    then have "pow2 ?e / 2 = 1 / 2 ^ 1075" by (simp add: pow2_def)
    with err assms(1) show ?thesis by (simp add: add_increasing)
  next
    case False
    then have e: "?e = ilog2 a + (- 52)" by (simp add: ulp_exponent_def)
    have "pow2 ?e / 2 = pow2 (ilog2 a) / 2 ^ 53"
      unfolding e pow2_add by (simp add: pow2_def)
    also have "\<dots> \<le> a / 2 ^ 53"
      using ilog2_lower [OF assms(1)] by (simp add: divide_right_mono)
    finally have "pow2 ?e / 2 \<le> a / 2 ^ 53" .
    with err show ?thesis by (simp add: add_increasing2)
  qed
qed

lemma round_binary64_error:
  assumes "round_binary64 x = Fin y"
  shows "\<bar>y - x\<bar> \<le> \<bar>x\<bar> / 2 ^ 53 + 1 / 2 ^ 1075"
proof -
  consider "x = 0" | "0 < x" | "x < 0" by linarith
  then show ?thesis
  proof cases
    case 1
    with assms show ?thesis by (simp add: round_binary64_def)
  next
    case 2
    with assms have "round_magnitude x = Some y"
      by (simp add: round_binary64_def split: option.splits)
    from round_magnitude_error [OF 2 this] 2 show ?thesis by simp
  next
    case 3
    with assms obtain z where z: "round_magnitude (- x) = Some z" and y: "y = - z"
      by (auto simp: round_binary64_def split: option.splits)
    from 3 have "0 < - x" by simp
    from round_magnitude_error [OF this z] 3 y show ?thesis by (simp add: abs_minus_commute)
  qed
qed

section \<open>The generator of the grid values\<close>

lemma frange_continue:
  "fle x (fadd stop lit_1e_9) \<Longrightarrow>
   frange x stop step = Option.bind (frange (fadd x step) stop step) (\<lambda>xs. Some (x # xs))"
  by (subst frange.simps) simp

lemma frange_finish: "\<not> fle x (fadd stop lit_1e_9) \<Longrightarrow> frange x stop step = Some []"
  by (subst frange.simps) simp

lemma frange_default: "frange (Fin (- 2)) (Fin 2) lit_0_1 = Some grid_axis"
  unfolding lit_0_1_val lit_1e_9_val grid_axis_def
  by (simp add: frange_continue frange_finish fle_def lit_1e_9_val fl_eval)


section \<open>The order of floats\<close>

lemma flt_irrefl [simp]: "\<not> flt x x"
  by (cases x) simp_all

lemma flt_asym: "flt x y \<Longrightarrow> \<not> flt y x"
  by (cases x; cases y) simp_all

lemma flt_trans: "flt x y \<Longrightarrow> flt y z \<Longrightarrow> flt x z"
  by (cases x; cases y; cases z) simp_all

lemma fle_not_flt: "fle x y \<Longrightarrow> \<not> flt y x"
  by (auto simp: fle_def dest: flt_asym)

lemma flt_not_zero: "flt (Fin 0) x \<Longrightarrow> x \<noteq> Fin 0"
  by auto

section \<open>Steps that never fail\<close>

lemma traverse_map:
  "(\<And>x. x \<in> set xs \<Longrightarrow> f x = Inr (g x)) \<Longrightarrow> traverse f xs = Inr (map g xs)"
  by (induction xs) simp_all

lemma traverse_Inl:
  "traverse f xs = Inl e \<Longrightarrow> \<exists>x \<in> set xs. f x = Inl e"
  by (induction xs) (auto split: sum.splits)

section \<open>The scanner writes the full grid\<close>

lemma scan_vals_eq: "scan_vals Pprime P2prime = Inr (grid_vals_of Pprime P2prime)"
proof (cases "fgt (scan_Zt Pprime P2prime) (Fin 0)")
  case True
  then have "scan_Zt Pprime P2prime \<noteq> Fin 0"
    by (auto simp: fgt_def)
  with True show ?thesis
    by (simp add: scan_vals_def grid_vals_of_def py_truediv_def Let_def)
next
  case False
  then show ?thesis
    by (simp add: scan_vals_def grid_vals_of_def Let_def)
qed

lemma scan_row_eq: "scan_row Pprime P2prime = Inr (grid_row_of Pprime P2prime)"
  by (simp add: scan_row_def scan_vals_eq grid_row_of_def)

lemma scan_inner_eq: "traverse (scan_row Pprime) p2s = Inr (map (grid_row_of Pprime) p2s)"
  by (rule traverse_map) (rule scan_row_eq)

lemma scan_outer_eq:
  "frange P2PRIME_MIN P2PRIME_MAX P2PRIME_STEP = Some p2s \<Longrightarrow>
   scan_outer ps = Some (Inr (concat (map (\<lambda>p. map (grid_row_of p) p2s) ps)))"
  by (induction ps) (simp_all add: scan_inner_eq)

lemma frange_PPRIME: "frange PPRIME_MIN PPRIME_MAX PPRIME_STEP = Some grid_axis"
  by (simp add: PPRIME_MIN_def PPRIME_MAX_def PPRIME_STEP_def frange_default)

lemma frange_P2PRIME: "frange P2PRIME_MIN P2PRIME_MAX P2PRIME_STEP = Some grid_axis"
  by (simp add: P2PRIME_MIN_def P2PRIME_MAX_def P2PRIME_STEP_def frange_default)

lemma scan_healthy_band_eq: "scan_healthy_band = Some (Inr scan_output)"
  by (simp add: scan_healthy_band_def scan_output_def frange_PPRIME
      scan_outer_eq [OF frange_P2PRIME])

lemma length_grid_axis: "length grid_axis = 41"
  by (simp add: grid_axis_def)

lemma length_concat_const:
  "length (concat (map (\<lambda>p. map (f p) ys) xs)) = length xs * length ys"
  by (induction xs) simp_all

lemma concat_map_product:
  "concat (map (\<lambda>p. map (f p) ys) xs) = map (\<lambda>(p, p2). f p p2) (List.product xs ys)"
  by (induction xs) (simp_all add: comp_def)

lemma nth_concat_blocks:
  "i < length xs \<Longrightarrow> j < length ys \<Longrightarrow>
   concat (map (\<lambda>p. map (f p) ys) xs) ! (i * length ys + j) = f (xs ! i) (ys ! j)"
proof (induction xs arbitrary: i)
  case Nil
  then show ?case by simp
next
  case (Cons x xs)
  show ?case
  proof (cases i)
    case 0
    with Cons.prems show ?thesis by (simp add: nth_append)
  next
    case (Suc i')
    with Cons.prems have "i' < length xs" by simp
    from Cons.IH [OF this Cons.prems(2)] Suc show ?thesis
      by (simp add: nth_append add.assoc)
  qed
qed

lemma length_scan_output: "length scan_output = 1681"
  by (simp add: scan_output_def length_concat_const length_grid_axis)

lemma scan_output_nth:
  "i < 41 \<Longrightarrow> j < 41 \<Longrightarrow> scan_output ! (i * 41 + j) = grid_row_of (grid_axis ! i) (grid_axis ! j)"
  using nth_concat_blocks [of i grid_axis j grid_axis grid_row_of]
  by (simp add: scan_output_def length_grid_axis)

lemma fields_grid_row_of:
  "row_Pprime (grid_row_of p p2) = fmt3 p"
  "row_P2prime (grid_row_of p p2) = fmt3 p2"
  "row_Zs (grid_row_of p p2) = fmt3 p"
  "row_Zt (grid_row_of p p2) = fmt3 (scan_Zt p p2)"
  "row_ghost_ok (grid_row_of p p2) = of_bool (fgt (scan_Zt p p2) (Fin 0))"
  "row_grad_ok (grid_row_of p p2) = of_bool (fgt p (Fin 0))"
  "row_cs2 (grid_row_of p p2) =
     (if fgt (scan_Zt p p2) (Fin 0) then Some (fmt3 (fdiv p (scan_Zt p p2))) else None)"
  by (simp_all add: grid_row_of_def grid_vals_of_def write_row_def)

lemma spec_axis_count_default: "spec_axis_count (Fin (- 2)) (Fin 2) lit_0_1 = Inr (Fin 41)"
  by (simp add: spec_axis_count_def py_truediv_def fsub_def lit_0_1_val fl_eval)

text \<open>
  Claim C3. With the constants of the script (\<open>-2.0\<close> to \<open>2.0\<close> in steps of \<open>0.1\<close> on both
  axes) both generators end, the scan ends without an exception, and it writes one row per
  pair of the Cartesian grid, in order and with none skipped: \<open>41 * 41 = 1681\<close> rows. The
  number of values on each axis is \<open>(MAX - MIN) / STEP + 1\<close>, evaluated in floats. The row
  of a pair carries the two grid values as the script writes them, formatted with \<open>.3f\<close>.
\<close>

theorem C3_scanner_row_count:
  "\<exists>ps p2s rows.
     frange PPRIME_MIN PPRIME_MAX PPRIME_STEP = Some ps \<and>
     frange P2PRIME_MIN P2PRIME_MAX P2PRIME_STEP = Some p2s \<and>
     scan_healthy_band = Some (Inr rows) \<and>
     rows = map (\<lambda>(p, p2). grid_row_of p p2) (List.product ps p2s) \<and>
     map (\<lambda>r. (row_Pprime r, row_P2prime r)) rows
       = map (\<lambda>(p, p2). (fmt3 p, fmt3 p2)) (List.product ps p2s) \<and>
     spec_axis_count PPRIME_MIN PPRIME_MAX PPRIME_STEP = Inr (Fin (of_nat (length ps))) \<and>
     spec_axis_count P2PRIME_MIN P2PRIME_MAX P2PRIME_STEP = Inr (Fin (of_nat (length p2s))) \<and>
     length ps = 41 \<and> length p2s = 41 \<and> length rows = 41 * 41 \<and> length rows = 1681"
proof -
  have 0: "scan_output = map (\<lambda>(p, p2). grid_row_of p p2) (List.product grid_axis grid_axis)"
    unfolding scan_output_def by (rule concat_map_product)
  have 1: "map (\<lambda>r. (row_Pprime r, row_P2prime r)) scan_output
      = map (\<lambda>(p, p2). (fmt3 p, fmt3 p2)) (List.product grid_axis grid_axis)"
    unfolding 0 by (simp add: fields_grid_row_of comp_def case_prod_beta)
  have 2: "spec_axis_count PPRIME_MIN PPRIME_MAX PPRIME_STEP = Inr (Fin (of_nat (length grid_axis)))"
    by (simp add: PPRIME_MIN_def PPRIME_MAX_def PPRIME_STEP_def spec_axis_count_default
        length_grid_axis)
  have 3: "spec_axis_count P2PRIME_MIN P2PRIME_MAX P2PRIME_STEP
      = Inr (Fin (of_nat (length grid_axis)))"
    by (simp add: P2PRIME_MIN_def P2PRIME_MAX_def P2PRIME_STEP_def spec_axis_count_default
        length_grid_axis)
  have 4: "length scan_output = 41 * 41" "length scan_output = 1681"
    by (simp_all add: length_scan_output)
  show ?thesis
    by (rule exI [of _ grid_axis], rule exI [of _ grid_axis], rule exI [of _ scan_output],
        intro conjI)
       (fact frange_PPRIME, fact frange_P2PRIME, fact scan_healthy_band_eq, fact 0, fact 1,
        fact 2, fact 3, fact length_grid_axis, fact length_grid_axis, fact 4(1), fact 4(2))
qed

section \<open>Flags and ratio of a grid record\<close>

lemma round_half_even_nonneg: "0 \<le> x \<Longrightarrow> 0 \<le> round_half_even x"
proof -
  assume "0 \<le> x"
  then have "0 \<le> \<lfloor>x\<rfloor>" by simp
  then show ?thesis
    by (simp add: round_half_even_def round_from_floor_def)
qed

lemma round_half_even_0: "round_half_even 0 = 0"
  by (simp add: round_half_even_def round_from_floor_def)

lemma fmt3_sign:
  assumes "fmt3 x \<noteq> Dec 0"
  shows "cell_pos (fmt3 x) \<longleftrightarrow> fgt x (Fin 0)"
proof (cases x)
  case (Fin a)
  show ?thesis
  proof (cases "0 \<le> a")
    case True
    then have "0 \<le> round_half_even (a * 1000)"
      by (simp add: round_half_even_nonneg)
    moreover from assms Fin True have "round_half_even (a * 1000) \<noteq> 0" by simp
    moreover from this have "a \<noteq> 0" by (auto simp: round_half_even_0)
    ultimately show ?thesis using Fin True by (simp add: fgt_def)
  next
    case False
    then have "0 \<le> round_half_even (- a * 1000)"
      by (simp add: round_half_even_nonneg)
    with Fin False show ?thesis by (simp add: fgt_def)
  qed
qed (simp_all add: fgt_def)

lemma row_42:
  "grid_axis ! 0 = Fin (- 2)"
  "grid_axis ! 30 = Fin (4503599627370499 / 4503599627370496)"
  by (simp_all add: grid_axis_def)

lemma vals_0_30:
  "scan_Zt (Fin (- 2)) (Fin (4503599627370499 / 4503599627370496)) = Fin (3 / 2251799813685248)"
  "fdiv (Fin (- 2)) (Fin (3 / 2251799813685248)) = Fin (- (6004799503160661 / 4))"
  by (simp_all add: scan_Zt_def X0_def fl_eval)

lemma row_0_30:
  "grid_row_of (Fin (- 2)) (Fin (4503599627370499 / 4503599627370496)) =
     \<lparr>row_Pprime = Dec (- 2000), row_P2prime = Dec 1000, row_Zs = Dec (- 2000),
      row_Zt = Dec 0, row_cs2 = Some (Dec (- 1501199875790165250)),
      row_ghost_ok = 1, row_grad_ok = 0\<rparr>"
  by (simp add: grid_row_of_def grid_vals_of_def write_row_def vals_0_30(1) fgt_def fl_eval)

text \<open>
  Claim C4, as stated, fails on the records that the script writes: the fields \<open>Zs\<close>, \<open>Zt\<close>
  and \<open>cs2\<close> of a record are rounded to three decimals, while the flags are computed from
  the unrounded floats. The grid pair of the first \<open>Pprime\<close> and the 31st \<open>P2prime\<close> has
  \<open>Zt = 3 / 2^51\<close> in the loop, because the accumulated \<open>P2prime\<close> is \<open>1 + 3 / 2^52\<close>; its
  record, the 31st of the file, reads \<open>-2.000, 1.000, -2.000, 0.000,
  -1501199875790165.250, 1, 0\<close>: \<open>ghost_ok\<close> is \<open>1\<close> while the \<open>Zt\<close> of the record is not
  greater than zero, and \<open>cs2\<close> is not the quotient of the record's \<open>Zs\<close> and \<open>Zt\<close>.
\<close>

theorem C4_record_flags_counterexample:
  "scan_healthy_band = Some (Inr scan_output) \<and>
   scan_output ! 30 =
     \<lparr>row_Pprime = Dec (- 2000), row_P2prime = Dec 1000, row_Zs = Dec (- 2000),
      row_Zt = Dec 0, row_cs2 = Some (Dec (- 1501199875790165250)),
      row_ghost_ok = 1, row_grad_ok = 0\<rparr> \<and>
   row_ghost_ok (scan_output ! 30) = 1 \<and>
   \<not> cell_pos (row_Zt (scan_output ! 30))"
proof -
  have "scan_output ! 30 = grid_row_of (grid_axis ! 0) (grid_axis ! 30)"
    using scan_output_nth [of 0 30] by simp
  then have "scan_output ! 30 =
     \<lparr>row_Pprime = Dec (- 2000), row_P2prime = Dec 1000, row_Zs = Dec (- 2000),
      row_Zt = Dec 0, row_cs2 = Some (Dec (- 1501199875790165250)),
      row_ghost_ok = 1, row_grad_ok = 0\<rparr>"
    by (simp only: row_42 row_0_30)
  with scan_healthy_band_eq show ?thesis by simp
qed

text \<open>
  Claim C4, amended. For every pair the loop body writes a row (it never raises). With the
  unrounded floats \<open>Zs = Pprime\<close> and \<open>Zt = Pprime + 2.0 * X0 * P2prime\<close> of the loop,
  \<open>ghost_ok\<close> is \<open>1\<close> exactly when \<open>Zt > 0\<close> and \<open>grad_ok\<close> is \<open>1\<close> exactly when \<open>Zs > 0\<close>; the
  \<open>cs2\<close> field is present exactly when \<open>ghost_ok\<close> is \<open>1\<close>, and then it is the float quotient
  \<open>Zs / Zt\<close> of the unrounded values, formatted with \<open>.3f\<close>; that quotient is the exact
  quotient up to a relative error of \<open>2^(-53)\<close> (and an absolute error of \<open>2^(-1075)\<close> where
  it underflows). The fields \<open>Zs\<close> and \<open>Zt\<close> of the record are these floats formatted with
  \<open>.3f\<close>, and a flag agrees with the sign of the written field whenever that field is not
  \<open>0.000\<close>.
\<close>

theorem C4_record_flags_amended:
  "\<exists>v r. scan_vals Pprime P2prime = Inr v \<and> scan_row Pprime P2prime = Inr r \<and>
       val_Zs v = Pprime \<and>
       val_Zt v = fadd Pprime (fmul (fmul (Fin 2) X0) P2prime) \<and>
       row_Pprime r = fmt3 Pprime \<and> row_P2prime r = fmt3 P2prime \<and>
       row_Zs r = fmt3 (val_Zs v) \<and> row_Zt r = fmt3 (val_Zt v) \<and>
       row_ghost_ok r = (if fgt (val_Zt v) (Fin 0) then 1 else 0) \<and>
       row_grad_ok r = (if fgt (val_Zs v) (Fin 0) then 1 else 0) \<and>
       (row_cs2 r \<noteq> None \<longleftrightarrow> row_ghost_ok r = 1) \<and>
       (\<forall>c. row_cs2 r = Some c \<longrightarrow>
            py_truediv (val_Zs v) (val_Zt v) = Inr (fdiv (val_Zs v) (val_Zt v)) \<and>
            c = fmt3 (fdiv (val_Zs v) (val_Zt v))) \<and>
       (\<forall>a b c. row_ghost_ok r = 1 \<and> val_Zs v = Fin a \<and> val_Zt v = Fin b \<and>
            fdiv (val_Zs v) (val_Zt v) = Fin c \<longrightarrow>
            \<bar>c - a / b\<bar> \<le> \<bar>a / b\<bar> / 2 ^ 53 + 1 / 2 ^ 1075) \<and>
       (row_Zt r \<noteq> Dec 0 \<longrightarrow> row_ghost_ok r = (if cell_pos (row_Zt r) then 1 else 0)) \<and>
       (row_Zs r \<noteq> Dec 0 \<longrightarrow> row_grad_ok r = (if cell_pos (row_Zs r) then 1 else 0))"
proof -
  let ?Zt = "scan_Zt Pprime P2prime"
  let ?v = "grid_vals_of Pprime P2prime"
  let ?r = "grid_row_of Pprime P2prime"
  have v: "val_Zs ?v = Pprime" "val_Zt ?v = ?Zt"
    by (simp_all add: grid_vals_of_def)
  have nz: "fgt ?Zt (Fin 0) \<Longrightarrow> ?Zt \<noteq> Fin 0"
    by (auto simp: fgt_def)
  have 1: "val_Zt ?v = fadd Pprime (fmul (fmul (Fin 2) X0) P2prime)"
    by (simp add: v scan_Zt_def)
  have 2: "row_Pprime ?r = fmt3 Pprime" "row_P2prime ?r = fmt3 P2prime"
    "row_Zs ?r = fmt3 (val_Zs ?v)" "row_Zt ?r = fmt3 (val_Zt ?v)"
    by (simp_all add: fields_grid_row_of v)
  have 3: "row_ghost_ok ?r = (if fgt (val_Zt ?v) (Fin 0) then 1 else 0)"
    "row_grad_ok ?r = (if fgt (val_Zs ?v) (Fin 0) then 1 else 0)"
    by (simp_all add: fields_grid_row_of v)
  have 4: "row_cs2 ?r \<noteq> None \<longleftrightarrow> row_ghost_ok ?r = 1"
    by (simp add: fields_grid_row_of)
  have 5: "\<forall>c. row_cs2 ?r = Some c \<longrightarrow>
      py_truediv (val_Zs ?v) (val_Zt ?v) = Inr (fdiv (val_Zs ?v) (val_Zt ?v)) \<and>
      c = fmt3 (fdiv (val_Zs ?v) (val_Zt ?v))"
    using nz by (auto simp: fields_grid_row_of v py_truediv_def split: if_splits)
  have 6: "\<forall>a b c. row_ghost_ok ?r = 1 \<and> val_Zs ?v = Fin a \<and> val_Zt ?v = Fin b \<and>
      fdiv (val_Zs ?v) (val_Zt ?v) = Fin c \<longrightarrow>
      \<bar>c - a / b\<bar> \<le> \<bar>a / b\<bar> / 2 ^ 53 + 1 / 2 ^ 1075"
  proof (intro allI impI, elim conjE)
    fix a b c
    assume g: "row_ghost_ok ?r = 1" and a: "val_Zs ?v = Fin a" and b: "val_Zt ?v = Fin b"
      and c: "fdiv (val_Zs ?v) (val_Zt ?v) = Fin c"
    from g have "fgt ?Zt (Fin 0)"
      by (simp add: fields_grid_row_of split: if_splits)
    with b have "b \<noteq> 0" by (auto simp: v fgt_def)
    with a b c have "round_binary64 (a / b) = Fin c" by simp
    then show "\<bar>c - a / b\<bar> \<le> \<bar>a / b\<bar> / 2 ^ 53 + 1 / 2 ^ 1075"
      by (rule round_binary64_error)
  qed
  have 7: "row_Zt ?r \<noteq> Dec 0 \<longrightarrow> row_ghost_ok ?r = (if cell_pos (row_Zt ?r) then 1 else 0)"
    using fmt3_sign [of ?Zt] by (simp add: fields_grid_row_of)
  have 8: "row_Zs ?r \<noteq> Dec 0 \<longrightarrow> row_grad_ok ?r = (if cell_pos (row_Zs ?r) then 1 else 0)"
    using fmt3_sign [of Pprime] by (simp add: fields_grid_row_of)
  show ?thesis
    by (rule exI [of _ ?v], rule exI [of _ ?r], intro conjI)
       (fact scan_vals_eq, fact scan_row_eq, fact v(1), fact 1, fact 2(1), fact 2(2),
        fact 2(3), fact 2(4), fact 3(1), fact 3(2), fact 4, fact 5, fact 6, fact 7, fact 8)
qed

theorem C4_record_flags_amended_witness:
  "\<exists>v r. scan_vals (Fin 1) (Fin (1 / 2)) = Inr v \<and> scan_row (Fin 1) (Fin (1 / 2)) = Inr r \<and>
       val_Zs v = Fin 1 \<and> val_Zt v = Fin 2 \<and>
       row_Zs r = Dec 1000 \<and> row_Zt r = Dec 2000 \<and>
       row_ghost_ok r = 1 \<and> row_grad_ok r = 1 \<and> row_cs2 r = Some (Dec 500)"
proof -
  have Zt: "fadd (Fin 1) (fmul (fmul (Fin 2) X0) (Fin (1 / 2))) = Fin 2"
    by (simp add: X0_def fl_eval)
  have d: "fdiv (Fin 1) (Fin 2) = Fin (1 / 2)"
    by (simp add: fl_eval)
  have f: "fmt3 (Fin 1) = Dec 1000" "fmt3 (Fin 2) = Dec 2000" "fmt3 (Fin (1 / 2)) = Dec 500"
    by (simp_all add: round_half_even_def round_from_floor_def)
  from C4_record_flags_amended [of "Fin 1" "Fin (1 / 2)"] obtain v r where
    r: "scan_vals (Fin 1) (Fin (1 / 2)) = Inr v" "scan_row (Fin 1) (Fin (1 / 2)) = Inr r"
       "val_Zs v = Fin 1"
       "val_Zt v = fadd (Fin 1) (fmul (fmul (Fin 2) X0) (Fin (1 / 2)))"
       "row_Zs r = fmt3 (val_Zs v)" "row_Zt r = fmt3 (val_Zt v)"
       "row_ghost_ok r = (if fgt (val_Zt v) (Fin 0) then 1 else 0)"
       "row_grad_ok r = (if fgt (val_Zs v) (Fin 0) then 1 else 0)"
       "row_cs2 r \<noteq> None \<longleftrightarrow> row_ghost_ok r = 1"
       "\<forall>c. row_cs2 r = Some c \<longrightarrow>
            py_truediv (val_Zs v) (val_Zt v) = Inr (fdiv (val_Zs v) (val_Zt v)) \<and>
            c = fmt3 (fdiv (val_Zs v) (val_Zt v))"
    by blast
  from r(4) Zt have t: "val_Zt v = Fin 2" by simp
  from r(5) r(3) f have zs: "row_Zs r = Dec 1000" by simp
  from r(6) t f have zt: "row_Zt r = Dec 2000" by simp
  from r(7) t have g: "row_ghost_ok r = 1" by (simp add: fgt_def)
  from r(8) r(3) have gr: "row_grad_ok r = 1" by (simp add: fgt_def)
  from r(9) g obtain c where c: "row_cs2 r = Some c" by auto
  with r(10) r(3) t d f have "c = Dec 500" by simp
  with c have cs: "row_cs2 r = Some (Dec 500)" by simp
  show ?thesis
    by (rule exI [of _ v], rule exI [of _ r], intro conjI)
       (fact r(1), fact r(2), fact r(3), fact t, fact zs, fact zt, fact g, fact gr, fact cs)
qed

section \<open>The derived field of the report\<close>

lemma fig_y_eq: "fig_y p p2 = scan_Zt p p2"
  by (simp add: fig_y_def scan_Zt_def fig_X0_def X0_def)

lemma report_y_vals_eq:
  "report_y_vals rows =
     map (\<lambda>r. scan_Zt (float_of_cell (row_Pprime r)) (float_of_cell (row_P2prime r))) rows"
  by (simp add: report_y_vals_def load_healthy_band_def y_vals_def zip_map_map fig_y_eq
      zip_same_conv_map comp_def)

lemma row_882: "grid_axis ! 21 = Fin (900719925474105 / 9007199254740992)"
  by (simp add: grid_axis_def)

lemma Zt_21_21:
  "scan_Zt (Fin (900719925474105 / 9007199254740992)) (Fin (900719925474105 / 9007199254740992))
     = Fin (2702159776422315 / 9007199254740992)"
  by (simp add: scan_Zt_def X0_def fl_eval)

lemma cells_21_21:
  "fmt3 (Fin (900719925474105 / 9007199254740992)) = Dec 100"
  "fmt3 (Fin (2702159776422315 / 9007199254740992)) = Dec 300"
  by (simp_all add: round_half_even_def round_from_floor_def)

lemma read_back_21_21:
  "float_of_cell (Dec 100) = Fin (3602879701896397 / 36028797018963968)"
  "float_of_cell (Dec 300) = Fin (5404319552844595 / 18014398509481984)"
  "scan_Zt (Fin (3602879701896397 / 36028797018963968)) (Fin (3602879701896397 / 36028797018963968))
     = Fin (1351079888211149 / 4503599627370496)"
  by (simp_all add: scan_Zt_def X0_def fl_eval)

text \<open>
  Claim C8, as stated, fails for the records: the report computes its field from the values
  it reads back from the file, which are rounded to three decimals. For the record of the
  22nd \<open>Pprime\<close> and the 22nd \<open>P2prime\<close> (the 883rd of the file, written \<open>0.100, 0.100\<close> with
  \<open>Zt = 0.300\<close>) the report computes \<open>0.1 + 2.0 * 0.1 = 0.30000000000000004\<close>; the scanner's
  \<open>Zt\<close> is \<open>2702159776422315 / 2^53\<close> in the loop and reads back as \<open>0.3\<close> from the file, and
  the report's value is neither.
\<close>

theorem C8_report_y_counterexample:
  "scan_healthy_band = Some (Inr scan_output) \<and>
   scan_output ! 882 = grid_row_of (grid_axis ! 21) (grid_axis ! 21) \<and>
   report_y_vals scan_output ! 882 = Fin (1351079888211149 / 4503599627370496) \<and>
   scan_vals (grid_axis ! 21) (grid_axis ! 21) = Inr (grid_vals_of (grid_axis ! 21) (grid_axis ! 21)) \<and>
   val_Zt (grid_vals_of (grid_axis ! 21) (grid_axis ! 21)) = Fin (2702159776422315 / 9007199254740992) \<and>
   row_Zt (scan_output ! 882) = Dec 300 \<and>
   float_of_cell (row_Zt (scan_output ! 882)) = Fin (5404319552844595 / 18014398509481984) \<and>
   report_y_vals scan_output ! 882 \<noteq> val_Zt (grid_vals_of (grid_axis ! 21) (grid_axis ! 21)) \<and>
   report_y_vals scan_output ! 882 \<noteq> float_of_cell (row_Zt (scan_output ! 882))"
proof -
  have n: "scan_output ! 882 = grid_row_of (grid_axis ! 21) (grid_axis ! 21)"
    using scan_output_nth [of 21 21] by simp
  have "report_y_vals scan_output ! 882 =
      scan_Zt (float_of_cell (row_Pprime (scan_output ! 882)))
              (float_of_cell (row_P2prime (scan_output ! 882)))"
    by (simp add: report_y_vals_eq length_scan_output)
  then have y: "report_y_vals scan_output ! 882 = Fin (1351079888211149 / 4503599627370496)"
    by (simp only: n row_882 fields_grid_row_of cells_21_21 read_back_21_21)
  have zt: "val_Zt (grid_vals_of (grid_axis ! 21) (grid_axis ! 21))
      = Fin (2702159776422315 / 9007199254740992)"
    by (simp add: grid_vals_of_def row_882 Zt_21_21)
  have w: "row_Zt (scan_output ! 882) = Dec 300"
    by (simp only: n row_882 fields_grid_row_of Zt_21_21 cells_21_21)
  have rb: "float_of_cell (row_Zt (scan_output ! 882))
      = Fin (5404319552844595 / 18014398509481984)"
    by (simp only: w read_back_21_21)
  have ne1: "report_y_vals scan_output ! 882
      \<noteq> val_Zt (grid_vals_of (grid_axis ! 21) (grid_axis ! 21))"
    unfolding y zt by simp
  have ne2: "report_y_vals scan_output ! 882 \<noteq> float_of_cell (row_Zt (scan_output ! 882))"
    unfolding y rb by simp
  show ?thesis
    by (intro conjI)
       (fact scan_healthy_band_eq, fact n, fact y, fact scan_vals_eq, fact zt, fact w, fact rb,
        fact ne1, fact ne2)
qed

text \<open>
  Claim C8, amended. The derived field of the report generator, \<open>p + 2.0 * X0 * p2\<close> with
  its own \<open>X0 = 1.0\<close>, is the same function of \<open>(Pprime, P2prime)\<close> as the scanner's \<open>Zt\<close>.
  For every list of records the report applies it to the values of \<open>Pprime\<close> and \<open>P2prime\<close>
  that it reads back from the file, so its field is the scanner's function of the read-back
  values, not the \<open>Zt\<close> of the record.
\<close>

theorem C8_fig_y_same_function:
  "fig_y Pprime P2prime = scan_Zt Pprime P2prime \<and>
   length (report_y_vals rows) = length rows \<and>
   report_y_vals rows =
     map (\<lambda>r. scan_Zt (float_of_cell (row_Pprime r)) (float_of_cell (row_P2prime r))) rows"
  by (simp add: fig_y_eq report_y_vals_eq)

section \<open>The F2 statistics of the report\<close>

lemma three_filters_le:
  "(\<And>x. x \<in> set xs \<Longrightarrow> \<not> (P x \<and> Q x) \<and> \<not> (P x \<and> R x) \<and> \<not> (Q x \<and> R x)) \<Longrightarrow>
   length (filter P xs) + length (filter Q xs) + length (filter R xs) \<le> length xs"
  by (induction xs) auto

lemma two_filters_le:
  "(\<And>x. x \<in> set xs \<Longrightarrow> \<not> (P x \<and> Q x)) \<Longrightarrow>
   length (filter P xs) + length (filter Q xs) \<le> length xs"
  by (induction xs) auto

lemma pos_neg_exclusive: "\<not> (fgt v (Fin 0) \<and> flt v (Fin 0))"
  by (auto simp: fgt_def dest: flt_asym)

lemma lit_1e_13_val:
  "round_binary64 (1 / 10 ^ 13) = Fin (7922816251426434 / 79228162514264337593543950336)"
  by (simp add: fl_eval)

text \<open>
  Claim C5, as stated, fails: a value that is not zero but smaller in magnitude than
  \<open>1e-12\<close> is counted twice, once by its sign and once as a zero. For the one-element list
  \<open>[1e-13]\<close> the three counts add up to \<open>2\<close> while \<open>total\<close> is \<open>1\<close>.
\<close>

theorem C5_counts_counterexample:
  "\<not> (n_pos (make_table_spin2_F2_stats [round_binary64 (1 / 10 ^ 13)])
      + n_neg (make_table_spin2_F2_stats [round_binary64 (1 / 10 ^ 13)])
      + n_zero (make_table_spin2_F2_stats [round_binary64 (1 / 10 ^ 13)])
      \<le> total (make_table_spin2_F2_stats [round_binary64 (1 / 10 ^ 13)]))"
  unfolding lit_1e_13_val
  by (simp add: make_table_spin2_F2_stats_def lit_1e_12_val fgt_def)

text \<open>
  Claim C5, amended. For every list of F2 values, \<open>n_pos + n_neg \<le> total\<close> and
  \<open>n_zero \<le> total\<close>; and \<open>n_pos + n_neg + n_zero \<le> total\<close> holds whenever the list has no
  value other than zero whose magnitude is below \<open>1e-12\<close>.
\<close>

theorem C5_counts_amended:
  "n_pos (make_table_spin2_F2_stats F2) + n_neg (make_table_spin2_F2_stats F2)
     \<le> total (make_table_spin2_F2_stats F2) \<and>
   n_zero (make_table_spin2_F2_stats F2) \<le> total (make_table_spin2_F2_stats F2) \<and>
   ((\<forall>v \<in> set F2. flt (fabs v) lit_1e_12 \<longrightarrow> v = Fin 0) \<longrightarrow>
      n_pos (make_table_spin2_F2_stats F2) + n_neg (make_table_spin2_F2_stats F2)
        + n_zero (make_table_spin2_F2_stats F2) \<le> total (make_table_spin2_F2_stats F2))"
proof (intro conjI impI)
  show "n_pos (make_table_spin2_F2_stats F2) + n_neg (make_table_spin2_F2_stats F2)
     \<le> total (make_table_spin2_F2_stats F2)"
    unfolding make_table_spin2_F2_stats_def using pos_neg_exclusive
    by (simp add: two_filters_le)
  show "n_zero (make_table_spin2_F2_stats F2) \<le> total (make_table_spin2_F2_stats F2)"
    by (simp add: make_table_spin2_F2_stats_def)
  assume tiny: "\<forall>v \<in> set F2. flt (fabs v) lit_1e_12 \<longrightarrow> v = Fin 0"
  have "length (filter (\<lambda>v. fgt v (Fin 0)) F2) + length (filter (\<lambda>v. flt v (Fin 0)) F2)
        + length (filter (\<lambda>v. flt (fabs v) lit_1e_12) F2) \<le> length F2"
  proof (rule three_filters_le)
    fix v assume "v \<in> set F2"
    with tiny have z: "flt (fabs v) lit_1e_12 \<Longrightarrow> v = Fin 0" by blast
    show "\<not> (fgt v (Fin 0) \<and> flt v (Fin 0)) \<and> \<not> (fgt v (Fin 0) \<and> flt (fabs v) lit_1e_12)
          \<and> \<not> (flt v (Fin 0) \<and> flt (fabs v) lit_1e_12)"
      using pos_neg_exclusive [of v] z by (auto simp: fgt_def)
  qed
  then show "n_pos (make_table_spin2_F2_stats F2) + n_neg (make_table_spin2_F2_stats F2)
        + n_zero (make_table_spin2_F2_stats F2) \<le> total (make_table_spin2_F2_stats F2)"
    by (simp add: make_table_spin2_F2_stats_def)
qed

theorem C5_counts_amended_witness:
  "n_pos (make_table_spin2_F2_stats [Fin 1, Fin (- 1), Fin 0, NaN]) = 1 \<and>
   n_neg (make_table_spin2_F2_stats [Fin 1, Fin (- 1), Fin 0, NaN]) = 1 \<and>
   n_zero (make_table_spin2_F2_stats [Fin 1, Fin (- 1), Fin 0, NaN]) = 1 \<and>
   total (make_table_spin2_F2_stats [Fin 1, Fin (- 1), Fin 0, NaN]) = 4 \<and>
   n_pos (make_table_spin2_F2_stats [Fin 1, Fin (- 1), Fin 0, NaN])
     + n_neg (make_table_spin2_F2_stats [Fin 1, Fin (- 1), Fin 0, NaN])
     + n_zero (make_table_spin2_F2_stats [Fin 1, Fin (- 1), Fin 0, NaN])
     \<le> total (make_table_spin2_F2_stats [Fin 1, Fin (- 1), Fin 0, NaN])"
proof -
  have h: "\<forall>v \<in> set [Fin 1, Fin (- 1), Fin 0, NaN]. flt (fabs v) lit_1e_12 \<longrightarrow> v = Fin 0"
    by (simp add: lit_1e_12_val)
  have c: "n_pos (make_table_spin2_F2_stats [Fin 1, Fin (- 1), Fin 0, NaN]) = 1"
    "n_neg (make_table_spin2_F2_stats [Fin 1, Fin (- 1), Fin 0, NaN]) = 1"
    "n_zero (make_table_spin2_F2_stats [Fin 1, Fin (- 1), Fin 0, NaN]) = 1"
    "total (make_table_spin2_F2_stats [Fin 1, Fin (- 1), Fin 0, NaN]) = 4"
    by (simp_all add: make_table_spin2_F2_stats_def lit_1e_12_val fgt_def)
  from C5_counts_amended [of "[Fin 1, Fin (- 1), Fin 0, NaN]"] h c show ?thesis
    by blast
qed

section \<open>Commutativity of the float operations and the two thresholds\<close>

lemma fadd_commute: "fadd x y = fadd y x"
  by (cases x; cases y) (simp_all add: add.commute)

lemma fmul_commute: "fmul x y = fmul y x"
  by (cases x; cases y) (simp_all add: mult.commute)

lemma thresholds: "flt lit_1e_10 lit_1e_8" "flt (Fin 0) lit_1e_10"
  by (simp_all add: lit_1e_10_val lit_1e_8_val)

lemma fabs_zero_iff: "fabs x = Fin 0 \<longleftrightarrow> x = Fin 0"
  by (cases x) simp_all

lemma outer_filter_implies_inner:
  "\<not> flt (fabs x) lit_1e_8 \<Longrightarrow> \<not> flt (fabs x) lit_1e_10"
  using flt_trans [OF _ thresholds(1)] by blast

lemma inner_filter_nonzero: "\<not> flt (fabs x) lit_1e_10 \<Longrightarrow> x \<noteq> Fin 0"
  using thresholds(2) by auto

section \<open>The tensors in closed form and their symmetries\<close>

lemma nth_map_range4: "mu < 4 \<Longrightarrow> map f range4 ! mu = f mu"
proof -
  assume "mu < 4"
  then have "mu = 0 \<or> mu = 1 \<or> mu = 2 \<or> mu = 3" by arith
  then show ?thesis by (auto simp: range4_def)
qed

lemma theta_entry_eq:
  "k2 \<noteq> Fin 0 \<Longrightarrow> k2 = minkowski_k2 k \<Longrightarrow> theta_entry k k2 mu nu = Inr (theta_val k mu nu)"
  by (simp add: theta_entry_def theta_val_def py_truediv_def)

lemma theta_tensor_eq:
  assumes "\<not> flt (fabs (minkowski_k2 k)) lit_1e_10"
  shows "theta_tensor k = Inr (theta_of k)"
proof -
  from assms have nz: "minkowski_k2 k \<noteq> Fin 0"
    by (rule inner_filter_nonzero)
  have row: "traverse (\<lambda>nu. theta_entry k (minkowski_k2 k) mu nu) range4
             = Inr (map (\<lambda>nu. theta_val k mu nu) range4)" for mu
    by (rule traverse_map) (simp add: theta_entry_eq [OF nz])
  have "traverse (\<lambda>mu. traverse (\<lambda>nu. theta_entry k (minkowski_k2 k) mu nu) range4) range4
        = Inr (map (\<lambda>mu. map (\<lambda>nu. theta_val k mu nu) range4) range4)"
    by (rule traverse_map) (rule row)
  with assms show ?thesis
    by (simp add: theta_tensor_def theta_of_def)
qed

lemma theta_tensor_raises:
  "flt (fabs (minkowski_k2 k)) lit_1e_10 \<Longrightarrow> theta_tensor k = Inl ValueError"
  by (simp add: theta_tensor_def)

lemma third_val: "py_truediv (Fin 1) (Fin 3) = Inr lit_third"
  by (simp add: py_truediv_def lit_third_def fl_eval)

lemma P2_entry_eq: "P2_entry theta mu nu rho sigma = Inr (P2_val theta mu nu rho sigma)"
  by (simp add: P2_entry_def third_val P2_val_def P2_term1_def P2_term2_def)

lemma P2_traverse_eq:
  "traverse (\<lambda>mu. traverse (\<lambda>nu. traverse (\<lambda>rho. traverse (\<lambda>sigma.
     P2_entry theta mu nu rho sigma) range4) range4) range4) range4 = Inr (P2_of theta)"
  unfolding P2_of_def
  by (rule traverse_map, rule traverse_map, rule traverse_map, rule traverse_map)
     (rule P2_entry_eq)

lemma P2_tensor_eq:
  "\<not> flt (fabs (minkowski_k2 k)) lit_1e_10 \<Longrightarrow> P2_tensor k = Inr (P2_of (theta_of k))"
  by (simp add: P2_tensor_def theta_tensor_eq P2_traverse_eq)

lemma P2_tensor_raises:
  "flt (fabs (minkowski_k2 k)) lit_1e_10 \<Longrightarrow> P2_tensor k = Inl ValueError"
  by (simp add: P2_tensor_def theta_tensor_raises)

lemma theta_of_nth: "mu < 4 \<Longrightarrow> nu < 4 \<Longrightarrow> theta_of k ! mu ! nu = theta_val k mu nu"
  by (simp add: theta_of_def nth_map_range4)

lemma P2_of_nth:
  "mu < 4 \<Longrightarrow> nu < 4 \<Longrightarrow> rho < 4 \<Longrightarrow> sigma < 4 \<Longrightarrow>
   P2_of theta ! mu ! nu ! rho ! sigma = P2_val theta mu nu rho sigma"
  by (simp add: P2_of_def nth_map_range4)

lemma theta_val_sym: "theta_val k mu nu = theta_val k nu mu"
proof (cases "mu = nu")
  case True
  then show ?thesis by simp
next
  case False
  then have "nu \<noteq> mu" by simp
  with False show ?thesis
    unfolding theta_val_def
    by (simp only: if_False fmul_commute [of "k ! mu" "k ! nu"])
qed

lemma theta_of_sym: "mu < 4 \<Longrightarrow> nu < 4 \<Longrightarrow> theta_of k ! mu ! nu = theta_of k ! nu ! mu"
  by (simp add: theta_of_nth theta_val_sym)

lemma term1_swap_first: "fadd (fmul a b) (fmul c d) = fadd (fmul d c) (fmul b a)"
proof -
  have "fadd (fmul a b) (fmul c d) = fadd (fmul b a) (fmul d c)"
    by (rule arg_cong2 [where f = fadd]; rule fmul_commute)
  also have "\<dots> = fadd (fmul d c) (fmul b a)"
    by (rule fadd_commute)
  finally show ?thesis .
qed

lemma term1_swap_inner: "fadd (fmul a b) (fmul c d) = fadd (fmul a b) (fmul d c)"
proof -
  have "fmul c d = fmul d c"
    by (rule fmul_commute)
  then show ?thesis
    by (rule arg_cong)
qed

lemma P2_term1_swap_first:
  "P2_term1 theta mu nu rho sigma = P2_term1 theta nu mu rho sigma"
  unfolding P2_term1_def
  by (rule arg_cong [where f = "fmul (Fin (1 / 2))"]) (rule term1_swap_first)

lemma P2_term1_swap_second:
  "P2_term1 theta mu nu rho sigma = P2_term1 theta mu nu sigma rho"
  unfolding P2_term1_def
  by (rule arg_cong [where f = "fmul (Fin (1 / 2))"]) (rule fadd_commute)

lemma P2_term2_swap_first:
  assumes "mu < 4" "nu < 4"
  shows "P2_term2 (theta_of k) mu nu rho sigma = P2_term2 (theta_of k) nu mu rho sigma"
  unfolding P2_term2_def theta_of_sym [OF assms] ..

lemma P2_term2_swap_second:
  assumes "rho < 4" "sigma < 4"
  shows "P2_term2 (theta_of k) mu nu rho sigma = P2_term2 (theta_of k) mu nu sigma rho"
  unfolding P2_term2_def theta_of_sym [OF assms] ..

lemma P2_val_swap_first:
  assumes "mu < 4" "nu < 4"
  shows "P2_val (theta_of k) mu nu rho sigma = P2_val (theta_of k) nu mu rho sigma"
  unfolding P2_val_def P2_term2_swap_first [OF assms] P2_term1_swap_first [of _ mu nu] ..

lemma P2_val_swap_second:
  assumes "rho < 4" "sigma < 4"
  shows "P2_val (theta_of k) mu nu rho sigma = P2_val (theta_of k) mu nu sigma rho"
  unfolding P2_val_def P2_term2_swap_second [OF assms] P2_term1_swap_second [of _ _ _ rho sigma] ..

lemma P2_term1_exchange:
  assumes "mu < 4" "nu < 4" "rho < 4" "sigma < 4"
  shows "P2_term1 (theta_of k) mu nu rho sigma = P2_term1 (theta_of k) rho sigma mu nu"
proof -
  have a: "theta_of k ! rho ! mu = theta_of k ! mu ! rho"
    and b: "theta_of k ! sigma ! nu = theta_of k ! nu ! sigma"
    and c: "theta_of k ! rho ! nu = theta_of k ! nu ! rho"
    and d: "theta_of k ! sigma ! mu = theta_of k ! mu ! sigma"
    using assms by (simp_all add: theta_of_sym)
  show ?thesis
    unfolding P2_term1_def a b c d
    by (rule arg_cong [where f = "fmul (Fin (1 / 2))"]) (rule term1_swap_inner)
qed

section \<open>The loop of the sampler\<close>

lemma sample_point_eq:
  "sample_point pt =
     Inr (if flt (fabs (minkowski_k2 (k_of pt))) lit_1e_8 then None else Some (sample_of pt))"
  by (cases pt)
     (simp add: sample_point_def sample_of_def k_of_def P2_tensor_eq outer_filter_implies_inner)

lemma emitted_eq:
  "emitted pt = (if flt (fabs (minkowski_k2 (k_of pt))) lit_1e_8 then [] else [sample_of pt])"
  by (simp add: emitted_def sample_point_eq)

lemma sampler_loop_eq: "sampler_loop pts rows = Inr (rows @ concat (map emitted pts))"
  by (induction pts arbitrary: rows) (simp_all add: sample_point_eq emitted_eq)

section \<open>The sampler at two vectors of the sweep\<close>

lemma k2_2_1: "minkowski_k2 [Fin 2, Fin 1, Fin 0, Fin 0] = Fin (- 3)"
  by (simp add: minkowski_k2_def fl_eval)

lemma k2_1_1: "minkowski_k2 [Fin 1, Fin 1, Fin 0, Fin 0] = Fin 0"
  by (simp add: minkowski_k2_def fl_eval)

lemma theta_2_1:
  "theta_of [Fin 2, Fin 1, Fin 0, Fin 0] =
    [[Fin (1501199875790165 / 4503599627370496),
      Fin (6004799503160661 / 9007199254740992), Fin 0, Fin 0],
     [Fin (6004799503160661 / 9007199254740992),
      Fin (6004799503160661 / 4503599627370496), Fin 0, Fin 0],
     [Fin 0, Fin 0, Fin 1, Fin 0], [Fin 0, Fin 0, Fin 0, Fin 1]]"
  by (simp add: theta_of_def theta_val_def range4_def eta_def k2_2_1 fsub_def fl_eval)

lemma P2_2_1_0001:
  "P2_of (theta_of [Fin 2, Fin 1, Fin 0, Fin 0]) ! 0 ! 0 ! 0 ! 1
     = Fin (5337599558365031 / 36028797018963968)"
  unfolding theta_2_1
  by (simp add: P2_of_nth P2_val_def P2_term1_def P2_term2_def lit_third_def fsub_def fl_eval)

lemma P2_2_1_0100:
  "P2_of (theta_of [Fin 2, Fin 1, Fin 0, Fin 0]) ! 0 ! 1 ! 0 ! 0
     = Fin (2668799779182515 / 18014398509481984)"
  unfolding theta_2_1
  by (simp add: P2_of_nth P2_val_def P2_term1_def P2_term2_def lit_third_def fsub_def fl_eval)

lemma retained_2_1: "\<not> flt (fabs (minkowski_k2 [Fin 2, Fin 1, Fin 0, Fin 0])) lit_1e_8"
  by (simp add: k2_2_1 lit_1e_8_val)

lemma ge_2_1_outer: "fge (fabs (minkowski_k2 [Fin 2, Fin 1, Fin 0, Fin 0])) lit_1e_8"
  by (simp add: k2_2_1 lit_1e_8_val fge_def fle_def)

lemma ge_2_1_inner: "fge (fabs (minkowski_k2 [Fin 2, Fin 1, Fin 0, Fin 0])) lit_1e_10"
  by (simp add: k2_2_1 lit_1e_10_val fge_def fle_def)

lemma skipped_1_1: "flt (fabs (minkowski_k2 [Fin 1, Fin 1, Fin 0, Fin 0])) lit_1e_8"
  by (simp add: k2_1_1 lit_1e_8_val)

lemma raises_1_1: "flt (fabs (minkowski_k2 [Fin 1, Fin 1, Fin 0, Fin 0])) lit_1e_10"
  by (simp add: k2_1_1 lit_1e_10_val)

lemma k_of_simp [simp]: "k_of (omega, kx, ky, kz) = [omega, kx, ky, kz]"
  by (simp add: k_of_def)

section \<open>Properties of the sampler\<close>

text \<open>
  Claim C1. For a swept vector \<open>k = [omega, kx, ky, kz]\<close> with \<open>|norm2| \<ge> 1e-8\<close> the loop body
  appends exactly one record, and for \<open>|norm2| < 1e-8\<close> it appends none; and for every list
  of swept vectors the loop ends without an exception, with the records of the vectors in
  order: a skipped vector does not abort the batch.
\<close>

theorem C1_sampler_emits:
  "(fge (fabs (minkowski_k2 [omega, kx, ky, kz])) lit_1e_8 \<longrightarrow>
      (\<exists>r. sample_point (omega, kx, ky, kz) = Inr (Some r) \<and> emitted (omega, kx, ky, kz) = [r] \<and>
           smp_k2 r = minkowski_k2 [omega, kx, ky, kz])) \<and>
   (flt (fabs (minkowski_k2 [omega, kx, ky, kz])) lit_1e_8 \<longrightarrow>
      sample_point (omega, kx, ky, kz) = Inr None \<and> emitted (omega, kx, ky, kz) = []) \<and>
   sampler_loop pts [] = Inr (concat (map emitted pts))"
proof (intro conjI impI)
  assume "fge (fabs (minkowski_k2 [omega, kx, ky, kz])) lit_1e_8"
  then have "\<not> flt (fabs (minkowski_k2 [omega, kx, ky, kz])) lit_1e_8"
    unfolding fge_def by (rule fle_not_flt)
  then show "\<exists>r. sample_point (omega, kx, ky, kz) = Inr (Some r) \<and>
      emitted (omega, kx, ky, kz) = [r] \<and> smp_k2 r = minkowski_k2 [omega, kx, ky, kz]"
    by (simp add: sample_point_eq emitted_eq sample_of_def)
next
  assume "flt (fabs (minkowski_k2 [omega, kx, ky, kz])) lit_1e_8"
  then show "sample_point (omega, kx, ky, kz) = Inr None"
    and "emitted (omega, kx, ky, kz) = []"
    by (simp_all add: sample_point_eq emitted_eq)
next
  show "sampler_loop pts [] = Inr (concat (map emitted pts))"
    by (simp add: sampler_loop_eq)
qed

theorem C1_sampler_emits_witness:
  "fge (fabs (minkowski_k2 [Fin 2, Fin 1, Fin 0, Fin 0])) lit_1e_8 \<and>
   (\<exists>r. sample_point (Fin 2, Fin 1, Fin 0, Fin 0) = Inr (Some r) \<and>
        emitted (Fin 2, Fin 1, Fin 0, Fin 0) = [r] \<and> smp_k2 r = Fin (- 3)) \<and>
   flt (fabs (minkowski_k2 [Fin 1, Fin 1, Fin 0, Fin 0])) lit_1e_8 \<and>
   sample_point (Fin 1, Fin 1, Fin 0, Fin 0) = Inr None \<and>
   emitted (Fin 1, Fin 1, Fin 0, Fin 0) = [] \<and>
   sampler_loop [(Fin 1, Fin 1, Fin 0, Fin 0), (Fin 2, Fin 1, Fin 0, Fin 0)] []
     = Inr (emitted (Fin 2, Fin 1, Fin 0, Fin 0))"
proof -
  note a = C1_sampler_emits [of "Fin 2" "Fin 1" "Fin 0" "Fin 0"
      "[(Fin 1, Fin 1, Fin 0, Fin 0), (Fin 2, Fin 1, Fin 0, Fin 0)]"]
  note b = C1_sampler_emits [of "Fin 1" "Fin 1" "Fin 0" "Fin 0" "[]"]
  from a ge_2_1_outer have 1: "\<exists>r. sample_point (Fin 2, Fin 1, Fin 0, Fin 0) = Inr (Some r) \<and>
        emitted (Fin 2, Fin 1, Fin 0, Fin 0) = [r] \<and>
        smp_k2 r = minkowski_k2 [Fin 2, Fin 1, Fin 0, Fin 0]"
    by blast
  from b skipped_1_1 have 2: "sample_point (Fin 1, Fin 1, Fin 0, Fin 0) = Inr None"
    and 3: "emitted (Fin 1, Fin 1, Fin 0, Fin 0) = []"
    by blast+
  from a have "sampler_loop [(Fin 1, Fin 1, Fin 0, Fin 0), (Fin 2, Fin 1, Fin 0, Fin 0)] []
      = Inr (concat (map emitted [(Fin 1, Fin 1, Fin 0, Fin 0), (Fin 2, Fin 1, Fin 0, Fin 0)]))"
    by blast
  with 3 have 4: "sampler_loop [(Fin 1, Fin 1, Fin 0, Fin 0), (Fin 2, Fin 1, Fin 0, Fin 0)] []
      = Inr (emitted (Fin 2, Fin 1, Fin 0, Fin 0))"
    by simp
  from 1 2 3 4 ge_2_1_outer skipped_1_1 show ?thesis
    by (simp add: k2_2_1)
qed

text \<open>
  Claim C2. For every four-vector \<open>k\<close> with \<open>|k^2| \<ge> 1e-10\<close>, \<open>P2_tensor\<close> returns a tensor
  \<open>P\<close>, and \<open>P\<close> is symmetric in its first pair of indices and in its second pair, for all
  256 index tuples. The equalities are between the computed floats, bit for bit.
\<close>

theorem C2_projector_pair_symmetry:
  assumes "length k = 4" and "fge (fabs (minkowski_k2 k)) lit_1e_10"
  shows "\<exists>P. P2_tensor k = Inr P \<and>
      (\<forall>mu<4. \<forall>nu<4. \<forall>rho<4. \<forall>sigma<4.
         P ! mu ! nu ! rho ! sigma = P ! nu ! mu ! rho ! sigma \<and>
         P ! mu ! nu ! rho ! sigma = P ! mu ! nu ! sigma ! rho)"
proof -
  from assms(2) have "\<not> flt (fabs (minkowski_k2 k)) lit_1e_10"
    unfolding fge_def by (rule fle_not_flt)
  then have "P2_tensor k = Inr (P2_of (theta_of k))"
    by (rule P2_tensor_eq)
  moreover have "P2_of (theta_of k) ! mu ! nu ! rho ! sigma
        = P2_of (theta_of k) ! nu ! mu ! rho ! sigma \<and>
      P2_of (theta_of k) ! mu ! nu ! rho ! sigma = P2_of (theta_of k) ! mu ! nu ! sigma ! rho"
    if "mu < 4" "nu < 4" "rho < 4" "sigma < 4" for mu nu rho sigma
    using that P2_val_swap_first [of mu nu k rho sigma] P2_val_swap_second [of rho sigma k mu nu]
    by (simp add: P2_of_nth)
  ultimately show ?thesis by blast
qed

theorem C2_projector_pair_symmetry_witness:
  "\<exists>P. P2_tensor [Fin 2, Fin 1, Fin 0, Fin 0] = Inr P \<and>
       P ! 0 ! 1 ! 0 ! 0 = P ! 1 ! 0 ! 0 ! 0 \<and> P ! 0 ! 0 ! 0 ! 1 = P ! 0 ! 0 ! 1 ! 0 \<and>
       P ! 0 ! 0 ! 0 ! 1 = Fin (5337599558365031 / 36028797018963968)"
proof -
  have len: "length [Fin 2, Fin 1, Fin 0, Fin 0] = 4" by simp
  from C2_projector_pair_symmetry [OF len ge_2_1_inner] obtain P where
    P: "P2_tensor [Fin 2, Fin 1, Fin 0, Fin 0] = Inr P"
    and sym: "\<forall>mu<4. \<forall>nu<4. \<forall>rho<4. \<forall>sigma<4.
         P ! mu ! nu ! rho ! sigma = P ! nu ! mu ! rho ! sigma \<and>
         P ! mu ! nu ! rho ! sigma = P ! mu ! nu ! sigma ! rho"
    by blast
  from sym have 1: "P ! 0 ! 1 ! 0 ! 0 = P ! 1 ! 0 ! 0 ! 0"
    by simp
  from sym have 2: "P ! 0 ! 0 ! 0 ! 1 = P ! 0 ! 0 ! 1 ! 0"
    by simp
  from ge_2_1_inner have "\<not> flt (fabs (minkowski_k2 [Fin 2, Fin 1, Fin 0, Fin 0])) lit_1e_10"
    unfolding fge_def by (rule fle_not_flt)
  with P have "P = P2_of (theta_of [Fin 2, Fin 1, Fin 0, Fin 0])"
    by (simp add: P2_tensor_eq)
  with P2_2_1_0001 have 3: "P ! 0 ! 0 ! 0 ! 1 = Fin (5337599558365031 / 36028797018963968)"
    by simp
  from P 1 2 3 show ?thesis by blast
qed

text \<open>
  Claim C6. \<open>theta_tensor\<close> raises \<open>ValueError\<close> exactly when \<open>|k^2| < 1e-10\<close>, and it raises
  nothing else. As \<open>1e-10 < 1e-8\<close>, a vector that passes the outer check of the loop
  (\<open>abs(k2) < 1e-8\<close> is false) makes \<open>theta_tensor\<close> and \<open>P2_tensor\<close> return, so the
  \<open>except ValueError\<close> branch is never taken for it.
\<close>

theorem C6_domain_error_unreachable:
  assumes "length k = 4"
  shows "(theta_tensor k = Inl ValueError \<longleftrightarrow> flt (fabs (minkowski_k2 k)) lit_1e_10) \<and>
     theta_tensor k \<noteq> Inl ZeroDivisionError \<and>
     flt lit_1e_10 lit_1e_8 \<and>
     (\<not> flt (fabs (minkowski_k2 k)) lit_1e_8 \<longrightarrow>
        \<not> flt (fabs (minkowski_k2 k)) lit_1e_10 \<and>
        (\<exists>theta. theta_tensor k = Inr theta) \<and> (\<exists>P. P2_tensor k = Inr P))"
proof (cases "flt (fabs (minkowski_k2 k)) lit_1e_10")
  case True
  then have "flt (fabs (minkowski_k2 k)) lit_1e_8"
    by (rule flt_trans) (rule thresholds(1))
  with True show ?thesis
    by (simp add: theta_tensor_raises thresholds(1))
next
  case False
  then show ?thesis
    by (simp add: theta_tensor_eq P2_tensor_eq thresholds(1))
qed

theorem C6_domain_error_unreachable_witness:
  "theta_tensor [Fin 1, Fin 1, Fin 0, Fin 0] = Inl ValueError \<and>
   flt (fabs (minkowski_k2 [Fin 1, Fin 1, Fin 0, Fin 0])) lit_1e_10 \<and>
   \<not> flt (fabs (minkowski_k2 [Fin 2, Fin 1, Fin 0, Fin 0])) lit_1e_8 \<and>
   (\<exists>theta. theta_tensor [Fin 2, Fin 1, Fin 0, Fin 0] = Inr theta) \<and>
   (\<exists>P. P2_tensor [Fin 2, Fin 1, Fin 0, Fin 0] = Inr P)"
proof -
  have len1: "length [Fin 1, Fin 1, Fin 0, Fin 0] = 4"
    and len2: "length [Fin 2, Fin 1, Fin 0, Fin 0] = 4"
    by simp_all
  from C6_domain_error_unreachable [OF len1] raises_1_1
  have 1: "theta_tensor [Fin 1, Fin 1, Fin 0, Fin 0] = Inl ValueError"
    by blast
  from C6_domain_error_unreachable [OF len2] retained_2_1
  have 2: "(\<exists>theta. theta_tensor [Fin 2, Fin 1, Fin 0, Fin 0] = Inr theta) \<and>
           (\<exists>P. P2_tensor [Fin 2, Fin 1, Fin 0, Fin 0] = Inr P)"
    by blast
  from 1 2 raises_1_1 retained_2_1 show ?thesis by blast
qed

lemma F2_2_1:
  "contract_P2_N (P2_of (theta_of [Fin 2, Fin 1, Fin 0, Fin 0]))
                 (N_tensor q [Fin 2, Fin 1, Fin 0, Fin 0])
     = Fin (2668799779182515 / 562949953421312)"
  unfolding theta_2_1
  by (simp add: contract_P2_N_def P2_of_def N_tensor_def q_def q0_def range4_def
      P2_val_def P2_term1_def P2_term2_def lit_third_def fsub_def fl_eval)

text \<open>
  Claim C7. The reference vector is \<open>q = (1, 0, 0, 0)\<close>. For the swept vector
  \<open>(1.0, 1.0, 0.0, 0.0)\<close> the computed \<open>norm2\<close> is exactly \<open>0\<close> and the sample is skipped. For
  \<open>(2.0, 1.0, 0.0, 0.0)\<close> the computed \<open>norm2\<close> is \<open>-3\<close>, the sample is kept, and the
  contraction is the finite float \<open>2668799779182515 / 2^49\<close>, about \<open>4.7407\<close> (the exact
  value of the contraction is \<open>128 / 27\<close>).
\<close>

theorem C7_null_and_timelike_samples:
  "q = [Fin 1, Fin 0, Fin 0, Fin 0] \<and>
   minkowski_k2 [Fin 1, Fin 1, Fin 0, Fin 0] = Fin 0 \<and>
   sample_point (Fin 1, Fin 1, Fin 0, Fin 0) = Inr None \<and>
   emitted (Fin 1, Fin 1, Fin 0, Fin 0) = [] \<and>
   minkowski_k2 [Fin 2, Fin 1, Fin 0, Fin 0] = Fin (- 3) \<and>
   sample_point (Fin 2, Fin 1, Fin 0, Fin 0) =
     Inr (Some \<lparr>smp_omega = Fin 2, smp_kx = Fin 1, smp_ky = Fin 0, smp_kz = Fin 0,
                smp_k2 = Fin (- 3), smp_F2 = Fin (2668799779182515 / 562949953421312)\<rparr>)"
proof -
  have "sample_point (Fin 1, Fin 1, Fin 0, Fin 0) = Inr None"
    and "emitted (Fin 1, Fin 1, Fin 0, Fin 0) = []"
    using skipped_1_1 by (simp_all add: sample_point_eq emitted_eq)
  moreover have "sample_point (Fin 2, Fin 1, Fin 0, Fin 0) =
     Inr (Some \<lparr>smp_omega = Fin 2, smp_kx = Fin 1, smp_ky = Fin 0, smp_kz = Fin 0,
                smp_k2 = Fin (- 3), smp_F2 = Fin (2668799779182515 / 562949953421312)\<rparr>)"
    using retained_2_1 by (simp add: sample_point_eq sample_of_def k2_2_1 F2_2_1)
  ultimately show ?thesis
    by (simp add: q_def q0_def k2_1_1 k2_2_1)
qed

text \<open>
  Claim C9, as stated, fails in float arithmetic: for the swept vector \<open>(2.0, 1.0, 0.0, 0.0)\<close>
  of the script, the entries \<open>P[0][0][0][1]\<close> and \<open>P[0][1][0][0]\<close> differ in the last bit.
\<close>

theorem C9_pair_exchange_counterexample:
  "fge (fabs (minkowski_k2 [Fin 2, Fin 1, Fin 0, Fin 0])) lit_1e_10 \<and>
   P2_tensor [Fin 2, Fin 1, Fin 0, Fin 0] = Inr (P2_of (theta_of [Fin 2, Fin 1, Fin 0, Fin 0])) \<and>
   P2_of (theta_of [Fin 2, Fin 1, Fin 0, Fin 0]) ! 0 ! 0 ! 0 ! 1
     = Fin (5337599558365031 / 36028797018963968) \<and>
   P2_of (theta_of [Fin 2, Fin 1, Fin 0, Fin 0]) ! 0 ! 1 ! 0 ! 0
     = Fin (2668799779182515 / 18014398509481984) \<and>
   P2_of (theta_of [Fin 2, Fin 1, Fin 0, Fin 0]) ! 0 ! 0 ! 0 ! 1
     \<noteq> P2_of (theta_of [Fin 2, Fin 1, Fin 0, Fin 0]) ! 0 ! 1 ! 0 ! 0"
proof -
  from ge_2_1_inner have "\<not> flt (fabs (minkowski_k2 [Fin 2, Fin 1, Fin 0, Fin 0])) lit_1e_10"
    unfolding fge_def by (rule fle_not_flt)
  then have "P2_tensor [Fin 2, Fin 1, Fin 0, Fin 0]
      = Inr (P2_of (theta_of [Fin 2, Fin 1, Fin 0, Fin 0]))"
    by (rule P2_tensor_eq)
  with ge_2_1_inner P2_2_1_0001 P2_2_1_0100 show ?thesis
    by simp
qed

text \<open>
  Claim C9, amended. For every four-vector \<open>k\<close> with \<open>|k^2| \<ge> 1e-10\<close>, \<open>theta\<close> is symmetric.
  The entries \<open>P[mu][nu][rho][sigma]\<close> and \<open>P[rho][sigma][mu][nu]\<close> of the projector have the
  same first term and differ only in the order in which the subtracted product is rounded,
  \<open>((1/3) * theta[mu][nu]) * theta[rho][sigma]\<close> against
  \<open>((1/3) * theta[rho][sigma]) * theta[mu][nu]\<close>; they are equal whenever
  \<open>theta[mu][nu] = theta[rho][sigma]\<close>.
\<close>

theorem C9_theta_symmetric_amended:
  assumes "length k = 4" and "fge (fabs (minkowski_k2 k)) lit_1e_10"
    and "mu < 4" "nu < 4" "rho < 4" "sigma < 4"
  shows "\<exists>theta P. theta_tensor k = Inr theta \<and> P2_tensor k = Inr P \<and>
      theta ! mu ! nu = theta ! nu ! mu \<and>
      P ! mu ! nu ! rho ! sigma =
        fsub (fmul (Fin (1 / 2)) (fadd (fmul (theta ! mu ! rho) (theta ! nu ! sigma))
                                       (fmul (theta ! mu ! sigma) (theta ! nu ! rho))))
             (fmul (fmul lit_third (theta ! mu ! nu)) (theta ! rho ! sigma)) \<and>
      P ! rho ! sigma ! mu ! nu =
        fsub (fmul (Fin (1 / 2)) (fadd (fmul (theta ! mu ! rho) (theta ! nu ! sigma))
                                       (fmul (theta ! mu ! sigma) (theta ! nu ! rho))))
             (fmul (fmul lit_third (theta ! rho ! sigma)) (theta ! mu ! nu)) \<and>
      (theta ! mu ! nu = theta ! rho ! sigma \<longrightarrow>
         P ! mu ! nu ! rho ! sigma = P ! rho ! sigma ! mu ! nu)"
proof -
  let ?th = "theta_of k"
  from assms(2) have ok: "\<not> flt (fabs (minkowski_k2 k)) lit_1e_10"
    unfolding fge_def by (rule fle_not_flt)
  have 1: "theta_tensor k = Inr ?th" and 2: "P2_tensor k = Inr (P2_of ?th)"
    using ok by (rule theta_tensor_eq, rule P2_tensor_eq)
  have 3: "?th ! mu ! nu = ?th ! nu ! mu"
    using assms by (simp add: theta_of_sym)
  have 4: "P2_of ?th ! mu ! nu ! rho ! sigma =
        fsub (fmul (Fin (1 / 2)) (fadd (fmul (?th ! mu ! rho) (?th ! nu ! sigma))
                                       (fmul (?th ! mu ! sigma) (?th ! nu ! rho))))
             (fmul (fmul lit_third (?th ! mu ! nu)) (?th ! rho ! sigma))"
    using assms by (simp add: P2_of_nth P2_val_def P2_term1_def P2_term2_def)
  have "P2_of ?th ! rho ! sigma ! mu ! nu =
      fsub (P2_term1 ?th rho sigma mu nu) (P2_term2 ?th rho sigma mu nu)"
    using assms by (simp add: P2_of_nth P2_val_def)
  also have "P2_term1 ?th rho sigma mu nu = P2_term1 ?th mu nu rho sigma"
    using assms by (simp add: P2_term1_exchange)
  finally have 5: "P2_of ?th ! rho ! sigma ! mu ! nu =
        fsub (fmul (Fin (1 / 2)) (fadd (fmul (?th ! mu ! rho) (?th ! nu ! sigma))
                                       (fmul (?th ! mu ! sigma) (?th ! nu ! rho))))
             (fmul (fmul lit_third (?th ! rho ! sigma)) (?th ! mu ! nu))"
    by (simp add: P2_term1_def P2_term2_def)
  have 6: "?th ! mu ! nu = ?th ! rho ! sigma \<Longrightarrow>
      P2_of ?th ! mu ! nu ! rho ! sigma = P2_of ?th ! rho ! sigma ! mu ! nu"
    unfolding 4 5 by simp
  from 1 2 3 4 5 6 show ?thesis by blast
qed

theorem C9_theta_symmetric_amended_witness:
  "\<exists>theta P. theta_tensor [Fin 2, Fin 1, Fin 0, Fin 0] = Inr theta \<and>
      P2_tensor [Fin 2, Fin 1, Fin 0, Fin 0] = Inr P \<and>
      theta ! 0 ! 1 = theta ! 1 ! 0 \<and>
      theta ! 2 ! 2 = theta ! 3 ! 3 \<and>
      P ! 2 ! 2 ! 3 ! 3 = P ! 3 ! 3 ! 2 ! 2"
proof -
  have len: "length [Fin 2, Fin 1, Fin 0, Fin 0] = 4" by simp
  have i: "(0::nat) < 4" "(1::nat) < 4" "(2::nat) < 4" "(3::nat) < 4" by simp_all
  from C9_theta_symmetric_amended [OF len ge_2_1_inner i(1) i(2) i(1) i(2)]
  obtain theta P where
    a: "theta_tensor [Fin 2, Fin 1, Fin 0, Fin 0] = Inr theta"
       "P2_tensor [Fin 2, Fin 1, Fin 0, Fin 0] = Inr P"
       "theta ! 0 ! 1 = theta ! 1 ! 0"
    by blast
  from C9_theta_symmetric_amended [OF len ge_2_1_inner i(3) i(3) i(4) i(4)]
  obtain theta' P' where
    b: "theta_tensor [Fin 2, Fin 1, Fin 0, Fin 0] = Inr theta'"
       "P2_tensor [Fin 2, Fin 1, Fin 0, Fin 0] = Inr P'"
       "theta' ! 2 ! 2 = theta' ! 3 ! 3 \<longrightarrow> P' ! 2 ! 2 ! 3 ! 3 = P' ! 3 ! 3 ! 2 ! 2"
    by blast
  from a b have eq: "theta' = theta" "P' = P" by simp_all
  from ge_2_1_inner have "\<not> flt (fabs (minkowski_k2 [Fin 2, Fin 1, Fin 0, Fin 0])) lit_1e_10"
    unfolding fge_def by (rule fle_not_flt)
  with a(1) have "theta = theta_of [Fin 2, Fin 1, Fin 0, Fin 0]"
    by (simp add: theta_tensor_eq)
  then have c: "theta ! 2 ! 2 = theta ! 3 ! 3"
    by (simp add: theta_2_1)
  with b(3) eq have "P ! 2 ! 2 ! 3 ! 3 = P ! 3 ! 3 ! 2 ! 2" by simp
  with a c show ?thesis by blast
qed

lemma main_sweep_eq:
  "main_sweep =
    [(Fin (1 / 2), Fin (1 / 2), Fin 0, Fin 0), (Fin (1 / 2), Fin 1, Fin 0, Fin 0),
     (Fin (1 / 2), Fin (3 / 2), Fin 0, Fin 0),
     (Fin 1, Fin (1 / 2), Fin 0, Fin 0), (Fin 1, Fin 1, Fin 0, Fin 0),
     (Fin 1, Fin (3 / 2), Fin 0, Fin 0),
     (Fin (3 / 2), Fin (1 / 2), Fin 0, Fin 0), (Fin (3 / 2), Fin 1, Fin 0, Fin 0),
     (Fin (3 / 2), Fin (3 / 2), Fin 0, Fin 0),
     (Fin 2, Fin (1 / 2), Fin 0, Fin 0), (Fin 2, Fin 1, Fin 0, Fin 0),
     (Fin 2, Fin (3 / 2), Fin 0, Fin 0)]"
  by (simp add: main_sweep_def sweep_def)

lemma main_sweep_k2:
  "map (\<lambda>pt. minkowski_k2 (k_of pt)) main_sweep =
    [Fin 0, Fin (3 / 4), Fin 2, Fin (- (3 / 4)), Fin 0, Fin (5 / 4), Fin (- 2),
     Fin (- (5 / 4)), Fin 0, Fin (- (15 / 4)), Fin (- 3), Fin (- (7 / 4))]"
  unfolding main_sweep_eq
  by (simp add: minkowski_k2_def fl_eval)

lemma smp_of_sample_of [simp]:
  "smp_omega (sample_of pt) = fst pt"
  "smp_kx (sample_of pt) = fst (snd pt)"
  "smp_k2 (sample_of pt) = minkowski_k2 (k_of pt)"
  by (cases pt; simp add: sample_of_def)+

lemma main_sweep_emitted:
  "concat (map emitted main_sweep) =
    map sample_of
     [(Fin (1 / 2), Fin 1, Fin 0, Fin 0), (Fin (1 / 2), Fin (3 / 2), Fin 0, Fin 0),
      (Fin 1, Fin (1 / 2), Fin 0, Fin 0), (Fin 1, Fin (3 / 2), Fin 0, Fin 0),
      (Fin (3 / 2), Fin (1 / 2), Fin 0, Fin 0), (Fin (3 / 2), Fin 1, Fin 0, Fin 0),
      (Fin 2, Fin (1 / 2), Fin 0, Fin 0), (Fin 2, Fin 1, Fin 0, Fin 0),
      (Fin 2, Fin (3 / 2), Fin 0, Fin 0)]"
  using main_sweep_k2 unfolding main_sweep_eq
  by (simp add: emitted_eq lit_1e_8_val)

text \<open>
  Claim C10. The hard-coded sweep has 12 vectors. Exactly three of them, those with
  \<open>omega = kx\<close>, have \<open>norm2\<close> exactly \<open>0\<close>, and exactly these are skipped; the script ends
  without an exception and writes 9 data rows, for the other nine vectors in order.
\<close>

theorem C10_main_sweep_rows:
  "length main_sweep = 12 \<and>
   filter (\<lambda>pt. minkowski_k2 (k_of pt) = Fin 0) main_sweep =
     [(Fin (1 / 2), Fin (1 / 2), Fin 0, Fin 0), (Fin 1, Fin 1, Fin 0, Fin 0),
      (Fin (3 / 2), Fin (3 / 2), Fin 0, Fin 0)] \<and>
   filter (\<lambda>pt. emitted pt = []) main_sweep =
     [(Fin (1 / 2), Fin (1 / 2), Fin 0, Fin 0), (Fin 1, Fin 1, Fin 0, Fin 0),
      (Fin (3 / 2), Fin (3 / 2), Fin 0, Fin 0)] \<and>
   (\<exists>rows. check_spin2_structure = Inr rows \<and> length rows = 9 \<and>
      map (\<lambda>r. (smp_omega r, smp_kx r, smp_k2 r)) rows =
        [(Fin (1 / 2), Fin 1, Fin (3 / 4)), (Fin (1 / 2), Fin (3 / 2), Fin 2),
         (Fin 1, Fin (1 / 2), Fin (- (3 / 4))), (Fin 1, Fin (3 / 2), Fin (5 / 4)),
         (Fin (3 / 2), Fin (1 / 2), Fin (- 2)), (Fin (3 / 2), Fin 1, Fin (- (5 / 4))),
         (Fin 2, Fin (1 / 2), Fin (- (15 / 4))), (Fin 2, Fin 1, Fin (- 3)),
         (Fin 2, Fin (3 / 2), Fin (- (7 / 4)))])"
proof -
  have 1: "length main_sweep = 12"
    by (simp add: main_sweep_eq)
  have 2: "filter (\<lambda>pt. minkowski_k2 (k_of pt) = Fin 0) main_sweep =
     [(Fin (1 / 2), Fin (1 / 2), Fin 0, Fin 0), (Fin 1, Fin 1, Fin 0, Fin 0),
      (Fin (3 / 2), Fin (3 / 2), Fin 0, Fin 0)]"
    using main_sweep_k2 unfolding main_sweep_eq by simp
  have 3: "filter (\<lambda>pt. emitted pt = []) main_sweep =
     [(Fin (1 / 2), Fin (1 / 2), Fin 0, Fin 0), (Fin 1, Fin 1, Fin 0, Fin 0),
      (Fin (3 / 2), Fin (3 / 2), Fin 0, Fin 0)]"
    using main_sweep_k2 unfolding main_sweep_eq by (simp add: emitted_eq lit_1e_8_val)
  have 4: "check_spin2_structure = Inr (concat (map emitted main_sweep))"
    by (simp add: check_spin2_structure_def sampler_loop_eq)
  have 5: "length (concat (map emitted main_sweep)) = 9"
    unfolding main_sweep_emitted by simp
  have 6: "map (\<lambda>r. (smp_omega r, smp_kx r, smp_k2 r)) (concat (map emitted main_sweep)) =
        [(Fin (1 / 2), Fin 1, Fin (3 / 4)), (Fin (1 / 2), Fin (3 / 2), Fin 2),
         (Fin 1, Fin (1 / 2), Fin (- (3 / 4))), (Fin 1, Fin (3 / 2), Fin (5 / 4)),
         (Fin (3 / 2), Fin (1 / 2), Fin (- 2)), (Fin (3 / 2), Fin 1, Fin (- (5 / 4))),
         (Fin 2, Fin (1 / 2), Fin (- (15 / 4))), (Fin 2, Fin 1, Fin (- 3)),
         (Fin 2, Fin (3 / 2), Fin (- (7 / 4)))]"
    unfolding main_sweep_emitted using main_sweep_k2 [unfolded main_sweep_eq] by simp
  have 7: "\<exists>rows. check_spin2_structure = Inr rows \<and> length rows = 9 \<and>
      map (\<lambda>r. (smp_omega r, smp_kx r, smp_k2 r)) rows =
        [(Fin (1 / 2), Fin 1, Fin (3 / 4)), (Fin (1 / 2), Fin (3 / 2), Fin 2),
         (Fin 1, Fin (1 / 2), Fin (- (3 / 4))), (Fin 1, Fin (3 / 2), Fin (5 / 4)),
         (Fin (3 / 2), Fin (1 / 2), Fin (- 2)), (Fin (3 / 2), Fin 1, Fin (- (5 / 4))),
         (Fin 2, Fin (1 / 2), Fin (- (15 / 4))), (Fin 2, Fin 1, Fin (- 3)),
         (Fin 2, Fin (3 / 2), Fin (- (7 / 4)))]"
    by (rule exI [of _ "concat (map emitted main_sweep)"], intro conjI) (fact 4, fact 5, fact 6)
  show ?thesis
    by (intro conjI) (fact 1, fact 2, fact 3, fact 7)
qed

end
